theory Spec2Isabelle
  imports Main "HOL-Library.Word" "HOL-Library.Monad_Syntax"
begin

unbundle bit_operations_syntax

section \<open>GLib and ModemManager basics\<close>

text \<open>
  The u-blox helpers report failures through a \<open>GError\<close> of the \<open>MM_CORE_ERROR\<close> domain.
  Only the three codes used by the functions below are listed. The message is the constant
  text of the source's format string; what \<open>printf\<close> would interpolate is left out.
\<close>

datatype MMCoreError =
    MM_CORE_ERROR_FAILED
  | MM_CORE_ERROR_UNSUPPORTED
  | MM_CORE_ERROR_INVALID_ARGS

datatype GError = GError MMCoreError string

text \<open>
  A call of a parser that returns \<open>gboolean\<close>, may fill the caller's \<open>GError **\<close> and writes
  through out pointers: \<open>ret\<close> is the returned value, \<open>err\<close> what was stored into the error
  location (\<open>None\<close>: left untouched) and \<open>written\<close> the stores made through the out pointers.
\<close>

record 'o call_result =
  ret :: bool
  err :: "GError option"
  written :: 'o

subsection \<open>Regular expressions of the response parsers\<close>

text \<open>
  The patterns handed to \<open>g_regex_new\<close> are built from four pieces only: a literal, the greedy
  \<open>\d+\<close>, the greedy \<open>[^,]*\<close> and optional tails. In each pattern a greedy piece is
  followed by something it cannot itself consume (a comma, or nothing mandatory), so
  the backtracking matcher settles on the maximal run and the pieces can be matched from
  left to right. The regular expressions are compiled without \<open>G_REGEX_RAW\<close>; responses are
  taken to be the ASCII text of an AT reply, on which matching itself raises no error.
\<close>

definition g_ascii_isdigit :: "char \<Rightarrow> bool" where
  "g_ascii_isdigit c = (c \<in> set ''0123456789'')"

definition g_ascii_isspace :: "char \<Rightarrow> bool" where
  "g_ascii_isspace c = (c \<in> {CHR '' '', CHR 0x09, CHR 0x0A, CHR 0x0B, CHR 0x0C, CHR 0x0D})"

fun match_literal :: "string \<Rightarrow> string \<Rightarrow> string option" where
  "match_literal [] s = Some s"
| "match_literal (p # ps) [] = None"
| "match_literal (p # ps) (c # cs) = (if p = c then match_literal ps cs else None)"

definition match_digits :: "string \<Rightarrow> (string \<times> string) option" where
  \<comment> \<open>\<open>(\d+)\<close>: the captured digits and the rest\<close>
  "match_digits s =
     (let d = takeWhile g_ascii_isdigit s
      in if d = [] then None else Some (d, dropWhile g_ascii_isdigit s))"

definition match_not_comma :: "string \<Rightarrow> (string \<times> string) option" where
  \<comment> \<open>\<open>([^,]*)\<close>: never fails\<close>
  "match_not_comma s =
     Some (takeWhile (\<lambda>c. c \<noteq> CHR '','') s, dropWhile (\<lambda>c. c \<noteq> CHR '','') s)"

text \<open>
  \<open>g_regex_match_full\<close> from start position 0: the leftmost position at which the pattern
  matches. A match is the list of its capture groups 1, 2, ...; a group that took no part
  in the match is \<open>None\<close>.
\<close>

type_synonym GMatchInfo = "string option list"

fun g_regex_match_full :: "(string \<Rightarrow> GMatchInfo option) \<Rightarrow> string \<Rightarrow> GMatchInfo option" where
  "g_regex_match_full r [] = r []"
| "g_regex_match_full r (c # cs) =
     (case r (c # cs) of Some mi \<Rightarrow> Some mi | None \<Rightarrow> g_regex_match_full r cs)"

definition g_match_info_fetch :: "GMatchInfo \<Rightarrow> nat \<Rightarrow> string option" where
  "g_match_info_fetch mi n =
     (if 1 \<le> n \<and> n \<le> length mi then mi ! (n - 1) else None)"

subsection \<open>Reading strings and numbers out of a match\<close>

definition g_strstrip :: "string \<Rightarrow> string" where
  "g_strstrip s = rev (dropWhile g_ascii_isspace (rev (dropWhile g_ascii_isspace s)))"

text \<open>
  Modelled from the spec: \<open>mm_get_string_unquoted_from_match_info\<close> is declared in
  mm-modem-helpers.h and its body is not among the sources. It fetches a group, removes one
  pair of enclosing double quotes (and the blanks next to them) and yields \<open>NULL\<close>, here
  \<open>None\<close>, for a missing or empty group.
\<close>

definition mm_get_string_unquoted_from_match_info :: "GMatchInfo \<Rightarrow> nat \<Rightarrow> string option" where
  "mm_get_string_unquoted_from_match_info mi n =
     (case g_match_info_fetch mi n of
        None \<Rightarrow> None
      | Some str \<Rightarrow>
          (let str' = (if length str \<ge> 2 \<and> hd str = CHR 0x22 \<and> last str = CHR 0x22
                       then g_strstrip (butlast (tl str)) else str)
           in if str' = [] then None else Some str'))"

definition G_MAXUINT :: nat where
  "G_MAXUINT = 4294967295"

definition digit_value :: "char \<Rightarrow> nat" where
  "digit_value c = of_char c - 48"

definition decimal_value :: "string \<Rightarrow> nat" where
  "decimal_value s = foldl (\<lambda>a c. 10 * a + digit_value c) 0 s"

text \<open>
  Modelled from the spec: \<open>mm_get_uint_from_str\<close> and \<open>mm_get_uint_from_match_info\<close> are
  declared in mm-modem-helpers.h and their bodies are not among the sources. They read a
  non-empty string of decimal digits into a \<open>guint\<close> and report \<open>FALSE\<close>, here \<open>None\<close>, when
  the string is missing, empty, has a non-digit, or names a number that a \<open>guint\<close> cannot
  hold.
\<close>

definition mm_get_uint_from_str :: "string \<Rightarrow> nat option" where
  "mm_get_uint_from_str str =
     (if str = [] \<or> \<not> list_all g_ascii_isdigit str then None
      else if decimal_value str \<le> G_MAXUINT then Some (decimal_value str) else None)"

definition mm_get_uint_from_match_info :: "GMatchInfo \<Rightarrow> nat \<Rightarrow> nat option" where
  "mm_get_uint_from_match_info mi n =
     (case mm_get_string_unquoted_from_match_info mi n of
        None \<Rightarrow> None
      | Some s \<Rightarrow> mm_get_uint_from_str s)"

section \<open>+UPINCNT response parser\<close>

definition upincnt_regex :: "string \<Rightarrow> GMatchInfo option" where
  \<comment> \<open>\<open>\+UPINCNT: (\d+),(\d+),(\d+),(\d+)(?:\r\n)?\<close>\<close>
  "upincnt_regex s = do {
     s1 \<leftarrow> match_literal ''+UPINCNT: '' s;
     (g1, s2) \<leftarrow> match_digits s1;
     s3 \<leftarrow> match_literal '','' s2;
     (g2, s4) \<leftarrow> match_digits s3;
     s5 \<leftarrow> match_literal '','' s4;
     (g3, s6) \<leftarrow> match_digits s5;
     s7 \<leftarrow> match_literal '','' s6;
     (g4, s8) \<leftarrow> match_digits s7;
     Some [Some g1, Some g2, Some g3, Some g4]
   }"

record upincnt_out =
  out_pin_attempts :: "nat option"
  out_pin2_attempts :: "nat option"
  out_puk_attempts :: "nat option"
  out_puk2_attempts :: "nat option"

definition upincnt_unset :: upincnt_out where
  "upincnt_unset = \<lparr>out_pin_attempts = None, out_pin2_attempts = None,
                    out_puk_attempts = None, out_puk2_attempts = None\<rparr>"

text \<open>
  The body up to the label \<open>out\<close>: the locals \<open>inner_error\<close>, the four counters and \<open>success\<close>.
  \<open>success\<close> starts as \<open>TRUE\<close> in the source.
\<close>

definition upincnt_locals ::
  "string \<Rightarrow> GError option \<times> (nat \<times> nat \<times> nat \<times> nat) \<times> bool" where
  "upincnt_locals response =
     (let success = True in
      case g_regex_match_full upincnt_regex response of
        None \<Rightarrow> (None, (0, 0, 0, 0), success)
      | Some mi \<Rightarrow>
         (case mm_get_uint_from_match_info mi 1 of
            None \<Rightarrow> (Some (GError MM_CORE_ERROR_UNSUPPORTED ''Couldn't parse PIN attempts''),
                      (0, 0, 0, 0), success)
          | Some pin \<Rightarrow>
         (case mm_get_uint_from_match_info mi 2 of
            None \<Rightarrow> (Some (GError MM_CORE_ERROR_UNSUPPORTED ''Couldn't parse PIN2 attempts''),
                      (pin, 0, 0, 0), success)
          | Some pin2 \<Rightarrow>
         (case mm_get_uint_from_match_info mi 3 of
            None \<Rightarrow> (Some (GError MM_CORE_ERROR_UNSUPPORTED ''Couldn't parse PUK attempts''),
                      (pin, pin2, 0, 0), success)
          | Some puk \<Rightarrow>
         (case mm_get_uint_from_match_info mi 4 of
            None \<Rightarrow> (Some (GError MM_CORE_ERROR_UNSUPPORTED ''Couldn't parse PUK2 attempts''),
                      (pin, pin2, puk, 0), success)
          | Some puk2 \<Rightarrow> (None, (pin, pin2, puk, puk2), True))))))"

definition mm_ublox_parse_upincnt_response :: "string \<Rightarrow> upincnt_out call_result" where
  "mm_ublox_parse_upincnt_response response =
     (case upincnt_locals response of
        (inner_error, (pin, pin2, puk, puk2), success) \<Rightarrow>
          if inner_error \<noteq> None
          then \<lparr>ret = False, err = inner_error, written = upincnt_unset\<rparr>
          else if \<not> success
          then \<lparr>ret = False,
                err = Some (GError MM_CORE_ERROR_FAILED ''Couldn't parse +UPINCNT response''),
                written = upincnt_unset\<rparr>
          else \<lparr>ret = True, err = None,
                written = \<lparr>out_pin_attempts = Some pin, out_pin2_attempts = Some pin2,
                           out_puk_attempts = Some puk, out_puk2_attempts = Some puk2\<rparr>\<rparr>)"

section \<open>UIPADDR=N response parser\<close>

definition uipaddr_regex :: "string \<Rightarrow> GMatchInfo option" where
  \<comment> \<open>\<open>\+UIPADDR: (\d+),([^,]*),([^,]*),([^,]*),([^,]*),([^,]*)(?:\r\n)?\<close>\<close>
  "uipaddr_regex s = do {
     s1 \<leftarrow> match_literal ''+UIPADDR: '' s;
     (g1, s2) \<leftarrow> match_digits s1;
     s3 \<leftarrow> match_literal '','' s2;
     (g2, s4) \<leftarrow> match_not_comma s3;
     s5 \<leftarrow> match_literal '','' s4;
     (g3, s6) \<leftarrow> match_not_comma s5;
     s7 \<leftarrow> match_literal '','' s6;
     (g4, s8) \<leftarrow> match_not_comma s7;
     s9 \<leftarrow> match_literal '','' s8;
     (g5, s10) \<leftarrow> match_not_comma s9;
     s11 \<leftarrow> match_literal '','' s10;
     (g6, s12) \<leftarrow> match_not_comma s11;
     Some [Some g1, Some g2, Some g3, Some g4, Some g5, Some g6]
   }"

text \<open>Which of the six out pointers the caller passed: \<open>True\<close> for a non-\<open>NULL\<close> pointer.\<close>

record uipaddr_ptrs =
  ptr_cid :: bool
  ptr_if_name :: bool
  ptr_ipv4_address :: bool
  ptr_ipv4_subnet :: bool
  ptr_ipv6_global_address :: bool
  ptr_ipv6_link_local_address :: bool

text \<open>
  The stores made through the out pointers: \<open>None\<close> when nothing was stored; a stored string
  pointer is itself \<open>None\<close> when it is \<open>NULL\<close>.
\<close>

record uipaddr_out =
  out_cid :: "nat option"
  out_if_name :: "string option option"
  out_ipv4_address :: "string option option"
  out_ipv4_subnet :: "string option option"
  out_ipv6_global_address :: "string option option"
  out_ipv6_link_local_address :: "string option option"

definition uipaddr_unset :: uipaddr_out where
  "uipaddr_unset =
     \<lparr>out_cid = None, out_if_name = None, out_ipv4_address = None, out_ipv4_subnet = None,
      out_ipv6_global_address = None, out_ipv6_link_local_address = None\<rparr>"

text \<open>
  The locals at the label \<open>out\<close>. The cid and the interface name are read only through a
  non-\<open>NULL\<close> pointer, and a failed read is an error; the four addresses are read through
  a non-\<open>NULL\<close> pointer and may come out \<open>NULL\<close>.
\<close>

record uipaddr_vars =
  v_inner_error :: "GError option"
  v_cid :: nat
  v_if_name :: "string option"
  v_ipv4_address :: "string option"
  v_ipv4_subnet :: "string option"
  v_ipv6_global_address :: "string option"
  v_ipv6_link_local_address :: "string option"

definition uipaddr_init :: uipaddr_vars where
  "uipaddr_init =
     \<lparr>v_inner_error = None, v_cid = 0, v_if_name = None, v_ipv4_address = None, v_ipv4_subnet = None,
      v_ipv6_global_address = None, v_ipv6_link_local_address = None\<rparr>"

definition uipaddr_locals :: "uipaddr_ptrs \<Rightarrow> string \<Rightarrow> uipaddr_vars" where
  "uipaddr_locals ptrs response =
     (case g_regex_match_full uipaddr_regex response of
        None \<Rightarrow>
          uipaddr_init\<lparr>v_inner_error :=
            Some (GError MM_CORE_ERROR_INVALID_ARGS ''Couldn't match +UIPADDR response'')\<rparr>
      | Some mi \<Rightarrow>
          (case (if ptr_cid ptrs then mm_get_uint_from_match_info mi 1 else Some 0) of
             None \<Rightarrow>
               uipaddr_init\<lparr>v_inner_error :=
                 Some (GError MM_CORE_ERROR_FAILED ''Error parsing cid'')\<rparr>
           | Some c \<Rightarrow>
               if ptr_if_name ptrs \<and> mm_get_string_unquoted_from_match_info mi 2 = None
               then uipaddr_init\<lparr>v_cid := c, v_inner_error :=
                      Some (GError MM_CORE_ERROR_FAILED ''Error parsing interface name'')\<rparr>
               else
                 uipaddr_init
                   \<lparr>v_cid := c,
                    v_if_name :=
                      (if ptr_if_name ptrs
                       then mm_get_string_unquoted_from_match_info mi 2 else None),
                    v_ipv4_address :=
                      (if ptr_ipv4_address ptrs
                       then mm_get_string_unquoted_from_match_info mi 3 else None),
                    v_ipv4_subnet :=
                      (if ptr_ipv4_subnet ptrs
                       then mm_get_string_unquoted_from_match_info mi 4 else None),
                    v_ipv6_global_address :=
                      (if ptr_ipv6_global_address ptrs
                       then mm_get_string_unquoted_from_match_info mi 5 else None),
                    v_ipv6_link_local_address :=
                      (if ptr_ipv6_link_local_address ptrs
                       then mm_get_string_unquoted_from_match_info mi 6 else None)\<rparr>))"

definition mm_ublox_parse_uipaddr_response ::
  "uipaddr_ptrs \<Rightarrow> string \<Rightarrow> uipaddr_out call_result" where
  "mm_ublox_parse_uipaddr_response ptrs response =
     (let v = uipaddr_locals ptrs response in
      if v_inner_error v \<noteq> None
      then \<lparr>ret = False, err = v_inner_error v, written = uipaddr_unset\<rparr>
      else
        \<lparr>ret = True, err = None,
         written =
           \<lparr>out_cid = (if ptr_cid ptrs then Some (v_cid v) else None),
            out_if_name = (if ptr_if_name ptrs then Some (v_if_name v) else None),
            out_ipv4_address = (if ptr_ipv4_address ptrs then Some (v_ipv4_address v) else None),
            out_ipv4_subnet = (if ptr_ipv4_subnet ptrs then Some (v_ipv4_subnet v) else None),
            out_ipv6_global_address =
              (if ptr_ipv6_global_address ptrs then Some (v_ipv6_global_address v) else None),
            out_ipv6_link_local_address =
              (if ptr_ipv6_link_local_address ptrs
               then Some (v_ipv6_link_local_address v) else None)\<rparr>\<rparr>)"

text \<open>A caller that passes all six out pointers.\<close>

definition uipaddr_all_ptrs :: uipaddr_ptrs where
  "uipaddr_all_ptrs =
     \<lparr>ptr_cid = True, ptr_if_name = True, ptr_ipv4_address = True, ptr_ipv4_subnet = True,
      ptr_ipv6_global_address = True, ptr_ipv6_link_local_address = True\<rparr>"

section \<open>CFUN? response parser\<close>

datatype MMModemPowerState =
    MM_MODEM_POWER_STATE_UNKNOWN
  | MM_MODEM_POWER_STATE_OFF
  | MM_MODEM_POWER_STATE_LOW
  | MM_MODEM_POWER_STATE_ON

definition cfun_regex :: "string \<Rightarrow> GMatchInfo option" where
  \<comment> \<open>\<open>\+CFUN: (\d+)(?:,(?:\d+))?(?:\r\n)?\<close>: one capture group; the tails are optional\<close>
  "cfun_regex s = do {
     s1 \<leftarrow> match_literal ''+CFUN: '' s;
     (g1, s2) \<leftarrow> match_digits s1;
     Some [Some g1]
   }"

text \<open>The body up to the label \<open>out\<close>: the locals \<open>inner_error\<close> and \<open>state\<close>.\<close>

definition cfun_locals :: "string \<Rightarrow> GError option \<times> MMModemPowerState" where
  "cfun_locals response =
     (case g_regex_match_full cfun_regex response of
        None \<Rightarrow> (None, MM_MODEM_POWER_STATE_UNKNOWN)
      | Some mi \<Rightarrow>
         (case mm_get_uint_from_match_info mi 1 of
            None \<Rightarrow> (Some (GError MM_CORE_ERROR_FAILED ''Couldn't read power state value''),
                      MM_MODEM_POWER_STATE_UNKNOWN)
          | Some v \<Rightarrow>
              (None,
               if v = 1 then MM_MODEM_POWER_STATE_ON
               else if v = 0 \<or> v = 4 \<or> v = 19 then MM_MODEM_POWER_STATE_LOW
               else MM_MODEM_POWER_STATE_UNKNOWN)))"

text \<open>
  After the label: a pending \<open>inner_error\<close> is propagated to the caller. When the state is
  still unknown the source creates a new error but assigns it to the local \<open>inner_error\<close>
  and returns, so nothing reaches the caller's error location.
\<close>

definition mm_ublox_parse_cfun_response :: "string \<Rightarrow> MMModemPowerState option call_result" where
  "mm_ublox_parse_cfun_response response =
     (case cfun_locals response of
        (inner_error, state) \<Rightarrow>
          if inner_error \<noteq> None
          then \<lparr>ret = False, err = inner_error, written = None\<rparr>
          else if state = MM_MODEM_POWER_STATE_UNKNOWN
          then \<lparr>ret = False, err = None, written = None\<rparr>
          else \<lparr>ret = True, err = None, written = Some state\<rparr>)"

section \<open>Mode combinations\<close>

text \<open>
  Modelled from the spec: the flags of \<open>MMModemMode\<close> are declared in ModemManager-enums.h,
  which is not among the sources: one bit per access technology, \<open>NONE\<close> being the empty mask.
\<close>

type_synonym MMModemMode = "32 word"

definition MM_MODEM_MODE_NONE :: MMModemMode where "MM_MODEM_MODE_NONE = 0"
definition MM_MODEM_MODE_CS :: MMModemMode where "MM_MODEM_MODE_CS = 1"
definition MM_MODEM_MODE_2G :: MMModemMode where "MM_MODEM_MODE_2G = 2"
definition MM_MODEM_MODE_3G :: MMModemMode where "MM_MODEM_MODE_3G = 4"
definition MM_MODEM_MODE_4G :: MMModemMode where "MM_MODEM_MODE_4G = 8"

record MMModemModeCombination =
  allowed :: MMModemMode
  preferred :: MMModemMode

text \<open>
  Modelled from the spec: \<open>mm_count_bits_set\<close> is declared in mm-modem-helpers.h and its body
  is not among the sources: the number of bits set in a mask.
\<close>

fun bits_set :: "nat \<Rightarrow> nat" where
  "bits_set n = (if n = 0 then 0 else n mod 2 + bits_set (n div 2))"

declare bits_set.simps [simp del]

definition mm_count_bits_set :: "MMModemMode \<Rightarrow> nat" where
  "mm_count_bits_set number = bits_set (unat number)"

text \<open>Index of the list is the u-blox specific value.\<close>

definition ublox_combinations :: "MMModemMode list" where
  "ublox_combinations =
     [MM_MODEM_MODE_2G,
      MM_MODEM_MODE_2G OR MM_MODEM_MODE_3G,
      MM_MODEM_MODE_3G,
      MM_MODEM_MODE_4G,
      MM_MODEM_MODE_2G OR MM_MODEM_MODE_3G OR MM_MODEM_MODE_4G,
      MM_MODEM_MODE_2G OR MM_MODEM_MODE_4G,
      MM_MODEM_MODE_3G OR MM_MODEM_MODE_4G]"

definition G_N_ELEMENTS_ublox_combinations :: nat where
  "G_N_ELEMENTS_ublox_combinations = length ublox_combinations"

section \<open>URAT=? response parser\<close>

text \<open>
  The three helpers that take the reply apart follow the reply documented in the parser,
  \<open>+URAT: (0-6),(0,2,3)\<close>: the tag and the blanks after it are dropped; the rest is cut into
  comma-separated groups; a group is a list of numbers and of intervals.
\<close>

text \<open>
  Modelled from the spec: \<open>mm_strip_tag\<close> is declared in mm-modem-helpers.h and its body is
  not among the sources. It drops the tag, when the string starts with it, and the blanks
  that follow.
\<close>

definition mm_strip_tag :: "string \<Rightarrow> string \<Rightarrow> string" where
  "mm_strip_tag str cmd =
     dropWhile g_ascii_isspace (if take (length cmd) str = cmd then drop (length cmd) str else str)"

text \<open>
  Modelled from the spec: \<open>mm_split_string_groups\<close> is declared in mm-modem-helpers.h and its
  body is not among the sources. It cuts a string into its comma-separated groups, a group
  being either a list between parentheses or a single item. The scan is in one of four
  states: at the start of a group, inside parentheses, behind the closing parenthesis (up
  to the next comma), or inside a single item.
\<close>

datatype split_state = AtStart | InParens | AfterParens | Plain

fun split_scan :: "split_state \<Rightarrow> string \<Rightarrow> string \<Rightarrow> string list" where
  "split_scan AtStart acc [] = [[]]"
| "split_scan AtStart acc (c # cs) =
     (if c = CHR '' '' then split_scan AtStart [] cs
      else if c = CHR ''('' then split_scan InParens [] cs
      else if c = CHR '','' then [] # split_scan AtStart [] cs
      else split_scan Plain [c] cs)"
| "split_scan InParens acc [] = [acc]"
| "split_scan InParens acc (c # cs) =
     (if c = CHR '')'' then acc # split_scan AfterParens [] cs
      else split_scan InParens (acc @ [c]) cs)"
| "split_scan AfterParens acc [] = []"
| "split_scan AfterParens acc (c # cs) =
     (if c = CHR '','' then split_scan AtStart [] cs else split_scan AfterParens [] cs)"
| "split_scan Plain acc [] = [acc]"
| "split_scan Plain acc (c # cs) =
     (if c = CHR '','' then acc # split_scan AtStart [] cs
      else split_scan Plain (acc @ [c]) cs)"

definition mm_split_string_groups :: "string \<Rightarrow> string list" where
  "mm_split_string_groups str = split_scan AtStart [] str"

text \<open>
  Modelled from the spec: \<open>mm_parse_uint_list\<close> is declared in mm-modem-helpers.h and its body
  is not among the sources. It reads a comma-separated list of numbers and of intervals
  \<open>a-b\<close> into the list of their values; a missing or empty string gives \<open>NULL\<close> without an
  error, anything unreadable gives an error.
\<close>

fun split_commas :: "string \<Rightarrow> string \<Rightarrow> string list" where
  "split_commas acc [] = [acc]"
| "split_commas acc (c # cs) =
     (if c = CHR '','' then acc # split_commas [] cs else split_commas (acc @ [c]) cs)"

fun uint_interval :: "nat \<Rightarrow> nat \<Rightarrow> nat list" where
  "uint_interval start 0 = []"
| "uint_interval start (Suc n) = start # uint_interval (Suc start) n"

definition parse_uint_item :: "string \<Rightarrow> GError + nat list" where
  "parse_uint_item aux =
     (let first = takeWhile (\<lambda>c. c \<noteq> CHR ''-'') aux;
          interval = dropWhile (\<lambda>c. c \<noteq> CHR ''-'') aux
      in if interval \<noteq> []
         then (case mm_get_uint_from_str first of
                 None \<Rightarrow> Inl (GError MM_CORE_ERROR_FAILED ''couldn't parse interval start integer'')
               | Some start \<Rightarrow>
                   (case mm_get_uint_from_str (tl interval) of
                      None \<Rightarrow> Inl (GError MM_CORE_ERROR_FAILED ''couldn't parse interval stop integer'')
                    | Some stop \<Rightarrow>
                        if start > stop
                        then Inl (GError MM_CORE_ERROR_FAILED ''interval start is bigger than interval stop'')
                        else Inr (uint_interval start (Suc stop - start))))
         else (case mm_get_uint_from_str aux of
                 None \<Rightarrow> Inl (GError MM_CORE_ERROR_FAILED ''couldn't parse integer'')
               | Some num \<Rightarrow> Inr [num]))"

fun parse_uint_items :: "string list \<Rightarrow> GError + nat list" where
  "parse_uint_items [] = Inr []"
| "parse_uint_items (x # xs) =
     (case parse_uint_item x of
        Inl e \<Rightarrow> Inl e
      | Inr ns \<Rightarrow> (case parse_uint_items xs of Inl e \<Rightarrow> Inl e | Inr ms \<Rightarrow> Inr (ns @ ms)))"

definition mm_parse_uint_list :: "string option \<Rightarrow> GError + nat list option" where
  "mm_parse_uint_list str =
     (case str of
        None \<Rightarrow> Inr None
      | Some s \<Rightarrow>
          if s = [] then Inr None
          else (case parse_uint_items (split_commas [] s) of
                  Inl e \<Rightarrow> Inl e
                | Inr ns \<Rightarrow>
                    if ns = [] then Inl (GError MM_CORE_ERROR_FAILED ''couldn't parse list of integers'')
                    else Inr (Some ns)))"

text \<open>The inner loop over the preferred values, for one allowed mask.\<close>

fun urat_preferred_loop :: "MMModemMode \<Rightarrow> nat list \<Rightarrow> MMModemModeCombination list" where
  "urat_preferred_loop allowed_mask [] = []"
| "urat_preferred_loop allowed_mask (preferred_value # rest) =
     (if preferred_value \<ge> G_N_ELEMENTS_ublox_combinations
      then urat_preferred_loop allowed_mask rest
      else if mm_count_bits_set (ublox_combinations ! preferred_value) \<noteq> 1
      then urat_preferred_loop allowed_mask rest
      else if allowed_mask AND (ublox_combinations ! preferred_value) = 0
      then urat_preferred_loop allowed_mask rest
      else \<lparr>allowed = allowed_mask, preferred = ublox_combinations ! preferred_value\<rparr>
             # urat_preferred_loop allowed_mask rest)"

text \<open>The outer loop over the selected values; \<open>preferred_list\<close> is \<open>None\<close> for a \<open>NULL\<close> array.\<close>

fun urat_selected_loop :: "nat list \<Rightarrow> nat list option \<Rightarrow> MMModemModeCombination list" where
  "urat_selected_loop [] preferred_list = []"
| "urat_selected_loop (selected_value # rest) preferred_list =
     (if selected_value \<ge> G_N_ELEMENTS_ublox_combinations
      then urat_selected_loop rest preferred_list
      else
        \<lparr>allowed = ublox_combinations ! selected_value, preferred = MM_MODEM_MODE_NONE\<rparr>
        # (if mm_count_bits_set (ublox_combinations ! selected_value) = 1 then []
           else (case preferred_list of
                   None \<Rightarrow> []
                 | Some ps \<Rightarrow> urat_preferred_loop (ublox_combinations ! selected_value) ps))
        @ urat_selected_loop rest preferred_list)"

text \<open>The first group of the reply, and the second one, \<open>NULL\<close> when there is none.\<close>

definition urat_test_groups :: "string \<Rightarrow> string list" where
  "urat_test_groups response = mm_split_string_groups (mm_strip_tag response ''+URAT:'')"

definition urat_test_selected :: "string \<Rightarrow> GError + nat list option" where
  "urat_test_selected response = mm_parse_uint_list (Some (urat_test_groups response ! 0))"

definition urat_test_preferred :: "string \<Rightarrow> GError + nat list option" where
  "urat_test_preferred response =
     mm_parse_uint_list
       (if length (urat_test_groups response) > 1 then Some (urat_test_groups response ! 1)
        else None)"

definition mm_ublox_parse_urat_test_response ::
  "string \<Rightarrow> GError + MMModemModeCombination list" where
  "mm_ublox_parse_urat_test_response response =
     (let split_len = length (urat_test_groups response) in
      if split_len > 2 \<or> split_len < 1
      then Inl (GError MM_CORE_ERROR_FAILED ''Unexpected number of groups in +URAT=? response'')
      else
        (case urat_test_selected response of
           Inl e \<Rightarrow> Inl e
         | Inr None \<Rightarrow>
             Inl (GError MM_CORE_ERROR_FAILED ''No selected RAT values given in +URAT=? response'')
         | Inr (Some selected) \<Rightarrow>
             (case urat_test_preferred response of
                Inl e \<Rightarrow> Inl e
              | Inr preferred_list \<Rightarrow>
                  (let combinations = urat_selected_loop selected preferred_list in
                   if combinations = []
                   then Inl (GError MM_CORE_ERROR_FAILED
                               ''No combinations built from +URAT=? response'')
                   else Inr combinations))))"

section \<open>Per-model filtering of the supported modes\<close>

definition g_str_has_prefix :: "string \<Rightarrow> string \<Rightarrow> bool" where
  "g_str_has_prefix str pre = (take (length pre) str = pre)"

definition supported_modes_per_model :: "string option \<Rightarrow> MMModemMode" where
  "supported_modes_per_model model =
     (let all = MM_MODEM_MODE_2G OR MM_MODEM_MODE_3G OR MM_MODEM_MODE_4G in
      case model of
        None \<Rightarrow> all
      | Some m \<Rightarrow>
          if m = ''TOBY-L201'' \<or> m = ''TOBY-L220'' \<or> m = ''MPCI-L201''
          then all AND NOT MM_MODEM_MODE_2G
          else if g_str_has_prefix m ''LISA-U'' \<or> g_str_has_prefix m ''SARA-U''
          then (let all' = all AND NOT MM_MODEM_MODE_4G in
                if m = ''SARA-U270-53S'' \<or> m = ''SARA-U280''
                then all' AND NOT MM_MODEM_MODE_2G
                else all')
          else all)"

text \<open>
  Modelled from the spec: \<open>mm_filter_supported_modes\<close> is declared in mm-modem-helpers.h and its
  body is not among the sources. It keeps only the combinations compatible with the mask
  given in \<open>all\<close>: those whose allowed modes all lie inside it.
\<close>

definition mm_filter_supported_modes ::
  "MMModemModeCombination list \<Rightarrow> MMModemModeCombination list \<Rightarrow> MMModemModeCombination list" where
  "mm_filter_supported_modes all combinations =
     filter (\<lambda>c. list_ex (\<lambda>m. allowed c AND NOT (allowed m) = 0) all) combinations"

definition mm_ublox_filter_supported_modes ::
  "string option \<Rightarrow> MMModemModeCombination list \<Rightarrow> GError + MMModemModeCombination list" where
  "mm_ublox_filter_supported_modes model combinations =
     (if model = None then Inr combinations
      else
        (let mode = \<lparr>allowed = supported_modes_per_model model, preferred = MM_MODEM_MODE_NONE\<rparr> in
         if allowed mode = supported_modes_per_model None then Inr combinations
         else
           (let filtered = mm_filter_supported_modes [mode] combinations in
            if filtered = []
            then Inl (GError MM_CORE_ERROR_FAILED
                        ''No valid mode combinations built after filtering'')
            else Inr filtered)))"

section \<open>Mode to apply when ANY is requested\<close>

text \<open>The loop, on the pair of the locals \<open>any\<close> and \<open>any_bits_set\<close>.\<close>

fun mode_any_loop ::
  "MMModemModeCombination list \<Rightarrow> MMModemMode \<times> nat \<Rightarrow> MMModemMode \<times> nat" where
  "mode_any_loop [] st = st"
| "mode_any_loop (combination # rest) (any, any_bits_set) =
     (if preferred combination = MM_MODEM_MODE_NONE
      then mode_any_loop rest (any, any_bits_set)
      else if mm_count_bits_set (allowed combination) > any_bits_set
      then mode_any_loop rest (allowed combination, mm_count_bits_set (allowed combination))
      else mode_any_loop rest (any, any_bits_set))"

text \<open>\<open>None\<close> stands for the abort of a failed \<open>g_assert\<close>.\<close>

definition mm_ublox_get_modem_mode_any :: "MMModemModeCombination list \<Rightarrow> MMModemMode option" where
  "mm_ublox_get_modem_mode_any combinations =
     (case mode_any_loop combinations (MM_MODEM_MODE_NONE, 0) of
        (any, any_bits_set) \<Rightarrow> if any \<noteq> MM_MODEM_MODE_NONE then Some any else None)"

section \<open>URAT? response parser\<close>

definition urat_regex :: "string \<Rightarrow> GMatchInfo option" where
  \<comment> \<open>\<open>\+URAT: (\d+)(?:,(\d+))?(?:\r\n)?\<close>\<close>
  "urat_regex s = do {
     s1 \<leftarrow> match_literal ''+URAT: '' s;
     (g1, s2) \<leftarrow> match_digits s1;
     Some [Some g1,
           (case match_literal '','' s2 of
              None \<Rightarrow> None
            | Some s3 \<Rightarrow> (case match_digits s3 of None \<Rightarrow> None | Some (g2, s4) \<Rightarrow> Some g2))]
   }"

text \<open>The optional preferred item, read once the allowed mask is known.\<close>

definition urat_read_preferred ::
  "GMatchInfo \<Rightarrow> MMModemMode \<Rightarrow> GError option \<times> MMModemMode \<times> MMModemMode" where
  "urat_read_preferred mi allowed_mask =
     (case mm_get_uint_from_match_info mi 2 of
        None \<Rightarrow> (None, allowed_mask, MM_MODEM_MODE_NONE)
      | Some v \<Rightarrow>
          if v \<ge> G_N_ELEMENTS_ublox_combinations
          then (Some (GError MM_CORE_ERROR_FAILED ''Unexpected AcT preferred value''),
                allowed_mask, MM_MODEM_MODE_NONE)
          else
            (let preferred_mask = ublox_combinations ! v in
             if mm_count_bits_set preferred_mask \<noteq> 1
             then (Some (GError MM_CORE_ERROR_FAILED
                           ''AcT preferred value should be a single AcT''),
                   allowed_mask, preferred_mask)
             else if allowed_mask AND preferred_mask = 0
             then (Some (GError MM_CORE_ERROR_FAILED
                           ''AcT preferred value not a subset of the allowed value''),
                   allowed_mask, preferred_mask)
             else (None, allowed_mask, preferred_mask)))"

text \<open>The body up to the label \<open>out\<close>: the locals \<open>inner_error\<close>, \<open>allowed\<close>, \<open>preferred\<close>.\<close>

definition urat_read_locals :: "string \<Rightarrow> GError option \<times> MMModemMode \<times> MMModemMode" where
  "urat_read_locals response =
     (case g_regex_match_full urat_regex response of
        None \<Rightarrow> (None, MM_MODEM_MODE_NONE, MM_MODEM_MODE_NONE)
      | Some mi \<Rightarrow>
         (case mm_get_uint_from_match_info mi 1 of
            None \<Rightarrow> (Some (GError MM_CORE_ERROR_FAILED ''Couldn't read AcT selected value''),
                      MM_MODEM_MODE_NONE, MM_MODEM_MODE_NONE)
          | Some v \<Rightarrow>
              if v \<ge> G_N_ELEMENTS_ublox_combinations
              then (Some (GError MM_CORE_ERROR_FAILED ''Unexpected AcT selected value''),
                    MM_MODEM_MODE_NONE, MM_MODEM_MODE_NONE)
              else urat_read_preferred mi (ublox_combinations ! v)))"

record urat_read_out =
  out_allowed :: "MMModemMode option"
  out_preferred :: "MMModemMode option"

definition mm_ublox_parse_urat_read_response :: "string \<Rightarrow> urat_read_out call_result" where
  "mm_ublox_parse_urat_read_response response =
     (case urat_read_locals response of
        (inner_error, allowed_mask, preferred_mask) \<Rightarrow>
          if inner_error \<noteq> None
          then \<lparr>ret = False, err = inner_error,
                written = \<lparr>out_allowed = None, out_preferred = None\<rparr>\<rparr>
          else if allowed_mask = MM_MODEM_MODE_NONE
          then \<lparr>ret = False, err = None,
                written = \<lparr>out_allowed = None, out_preferred = None\<rparr>\<rparr>
          else \<lparr>ret = True, err = None,
                written = \<lparr>out_allowed = Some allowed_mask,
                           out_preferred = Some preferred_mask\<rparr>\<rparr>)"

section \<open>URAT=X command builder\<close>

definition digit_char :: "nat \<Rightarrow> char" where
  "digit_char d = ''0123456789'' ! d"

text \<open>The conversion \<open>%u\<close> of \<open>g_string_append_printf\<close>: decimal digits, no padding.\<close>

fun printf_u :: "nat \<Rightarrow> string" where
  "printf_u n = (if n < 10 then [digit_char n] else printf_u (n div 10) @ [digit_char (n mod 10)])"

declare printf_u.simps [simp del]

text \<open>
  The loop of \<open>append_rat_value\<close> over the indices from \<open>i\<close> on: the first index whose entry
  equals the mode.
\<close>

fun rat_value_from :: "nat \<Rightarrow> MMModemMode list \<Rightarrow> MMModemMode \<Rightarrow> nat option" where
  "rat_value_from i [] mode = None"
| "rat_value_from i (c # cs) mode = (if c = mode then Some i else rat_value_from (Suc i) cs mode)"

definition append_rat_value :: "string \<Rightarrow> MMModemMode \<Rightarrow> GError + string" where
  "append_rat_value str mode =
     (case rat_value_from 0 ublox_combinations mode of
        Some i \<Rightarrow> Inr (str @ printf_u i)
      | None \<Rightarrow> Inl (GError MM_CORE_ERROR_FAILED ''No AcT value matches requested mode''))"

definition mm_ublox_build_urat_set_command :: "MMModemMode \<Rightarrow> MMModemMode \<Rightarrow> GError + string" where
  "mm_ublox_build_urat_set_command allowed_mask preferred_mask =
     (case append_rat_value ''+URAT='' allowed_mask of
        Inl e \<Rightarrow> Inl e
      | Inr command \<Rightarrow>
          if preferred_mask \<noteq> MM_MODEM_MODE_NONE
          then (case append_rat_value (command @ '','') preferred_mask of
                  Inl e \<Rightarrow> Inl e
                | Inr command' \<Rightarrow> Inr command')
          else Inr command)"

section \<open>MBIM modem: first enabling and initialization steps\<close>

text \<open>
  The asynchronous steps are continuations: each operation hands a callback to the next
  one, which calls it with its outcome. The outcomes of the operations that live outside
  the modem class (the MBIM port of the base modem, opening the port, the parent class's
  steps) are collected in \<open>modem_env\<close>, and running the chain of callbacks yields the
  operations started, in order, and the completed \<open>GSimpleAsyncResult\<close>.
\<close>

datatype gpointer = NULL | Pointer nat

record modem_env =
  port_mbim :: "bool option"
    \<comment> \<open>\<open>mm_base_modem_get_port_mbim\<close>: \<open>None\<close> for \<open>NULL\<close>, else whether the port is open\<close>
  port_open_finish :: "GError option"
    \<comment> \<open>\<open>mm_mbim_port_open_finish\<close>: \<open>None\<close> for \<open>TRUE\<close>, else the error it sets\<close>
  parent_initialization_finish :: "gpointer \<times> GError option"
    \<comment> \<open>the parent's \<open>initialization_started_finish\<close>: returned pointer and error set\<close>
  parent_enabling_finish :: "GError option"
    \<comment> \<open>the parent's \<open>enabling_started_finish\<close>: \<open>None\<close> for \<open>TRUE\<close>, else the error it sets\<close>

datatype modem_call =
    MbimPortOpen
  | ParentInitializationStarted
  | ParentEnablingStarted

record GSimpleAsyncResult =
  res_error :: "GError option"
  op_res_gpointer :: gpointer
  op_res_gboolean :: bool

definition g_simple_async_result_new :: GSimpleAsyncResult where
  "g_simple_async_result_new = \<lparr>res_error = None, op_res_gpointer = NULL, op_res_gboolean = False\<rparr>"

text \<open>
  \<open>g_simple_async_result_propagate_error\<close>: whether an error was stored, and the error
  handed to the caller.
\<close>

definition g_simple_async_result_propagate_error :: "GSimpleAsyncResult \<Rightarrow> bool \<times> GError option" where
  "g_simple_async_result_propagate_error res = (res_error res \<noteq> None, res_error res)"

subsection \<open>First enabling step\<close>

definition enabling_started_finish :: "GSimpleAsyncResult \<Rightarrow> bool \<times> GError option" where
  "enabling_started_finish res =
     (case g_simple_async_result_propagate_error res of (failed, e) \<Rightarrow> (\<not> failed, e))"

text \<open>The parent's error, if any, is logged and freed; the result is set to \<open>TRUE\<close> either way.\<close>

definition parent_enabling_started_ready :: "modem_env \<Rightarrow> GSimpleAsyncResult \<Rightarrow> GSimpleAsyncResult" where
  "parent_enabling_started_ready env simple =
     (case parent_enabling_finish env of
        Some error \<Rightarrow> simple\<lparr>op_res_gboolean := True\<rparr>
      | None \<Rightarrow> simple\<lparr>op_res_gboolean := True\<rparr>)"

definition enabling_started :: "modem_env \<Rightarrow> modem_call list \<times> GSimpleAsyncResult" where
  "enabling_started env =
     ([ParentEnablingStarted], parent_enabling_started_ready env g_simple_async_result_new)"

subsection \<open>First initialization step\<close>

definition initialization_started_finish :: "GSimpleAsyncResult \<Rightarrow> gpointer \<times> GError option" where
  "initialization_started_finish res =
     (case g_simple_async_result_propagate_error res of
        (failed, e) \<Rightarrow> if failed then (NULL, e) else (op_res_gpointer res, None))"

definition parent_initialization_started_ready ::
  "modem_env \<Rightarrow> GSimpleAsyncResult \<Rightarrow> GSimpleAsyncResult" where
  "parent_initialization_started_ready env result =
     (case parent_initialization_finish env of
        (parent_ctx, error) \<Rightarrow> result\<lparr>op_res_gpointer := parent_ctx\<rparr>)"

definition parent_initialization_started ::
  "modem_env \<Rightarrow> GSimpleAsyncResult \<Rightarrow> modem_call list \<times> GSimpleAsyncResult" where
  "parent_initialization_started env result =
     ([ParentInitializationStarted], parent_initialization_started_ready env result)"

definition mbim_port_open_ready ::
  "modem_env \<Rightarrow> GSimpleAsyncResult \<Rightarrow> modem_call list \<times> GSimpleAsyncResult" where
  "mbim_port_open_ready env result =
     (case port_open_finish env of
        Some error \<Rightarrow> ([], result\<lparr>res_error := Some error\<rparr>)
      | None \<Rightarrow> parent_initialization_started env result)"

definition initialization_started :: "modem_env \<Rightarrow> modem_call list \<times> GSimpleAsyncResult" where
  "initialization_started env =
     (let result = g_simple_async_result_new in
      case port_mbim env of
        None \<Rightarrow>
          ([], result\<lparr>res_error :=
                 Some (GError MM_CORE_ERROR_FAILED ''Cannot initialize: MBIM port went missing'')\<rparr>)
      | Some is_open \<Rightarrow>
          if is_open then parent_initialization_started env result
          else (case mbim_port_open_ready env result of
                  (calls, result') \<Rightarrow> (MbimPortOpen # calls, result')))"

section \<open>Evaluation rules\<close>

text \<open>Unfolding rules with which the simplifier runs the helpers on concrete replies.\<close>

lemmas match_defs =
  match_digits_def match_not_comma_def g_ascii_isdigit_def g_ascii_isspace_def g_strstrip_def
  mm_get_uint_from_match_info_def mm_get_string_unquoted_from_match_info_def
  g_match_info_fetch_def mm_get_uint_from_str_def decimal_value_def digit_value_def
  G_MAXUINT_def Let_def

lemmas mode_defs =
  MM_MODEM_MODE_NONE_def MM_MODEM_MODE_2G_def MM_MODEM_MODE_3G_def MM_MODEM_MODE_4G_def
  ublox_combinations_def G_N_ELEMENTS_ublox_combinations_def

lemma bits_set_0: "bits_set 0 = 0"
  by (simp add: bits_set.simps)

lemma bits_set_1: "bits_set (Suc 0) = 1"
  by (simp add: bits_set.simps)

lemma bits_set_even: "bits_set (2 * n) = bits_set n"
  by (subst bits_set.simps) (simp add: bits_set_0)

lemma bits_set_odd: "bits_set (Suc (2 * n)) = Suc (bits_set n)"
  by (subst bits_set.simps) simp

lemma bits_set_Bit0: "bits_set (numeral (Num.Bit0 k)) = bits_set (numeral k)"
  using bits_set_even [of "numeral k"] by (simp add: numeral_Bit0 mult_2)

lemma bits_set_Bit1: "bits_set (numeral (Num.Bit1 k)) = Suc (bits_set (numeral k))"
  using bits_set_odd [of "numeral k"] by (simp add: numeral_Bit1 mult_2)

lemma bits_set_One: "bits_set (numeral Num.One) = 1"
  using bits_set_1 by simp

lemmas bits_simps =
  bits_set_0 bits_set_1 bits_set_Bit0 bits_set_Bit1 bits_set_One mm_count_bits_set_def

lemma uint_interval_numeral:
  "uint_interval start (numeral k) = start # uint_interval (Suc start) (pred_numeral k)"
  by (simp add: numeral_eq_Suc)

lemmas urat_test_defs =
  mm_ublox_parse_urat_test_response_def urat_test_groups_def urat_test_selected_def
  urat_test_preferred_def mm_strip_tag_def mm_split_string_groups_def mm_parse_uint_list_def
  parse_uint_item_def uint_interval_numeral

section \<open>Properties of the +UPINCNT parser\<close>

text \<open>
  A reply in which the pattern matches and whose four numbers are read by
  \<open>mm_get_uint_from_match_info\<close> is accepted, and the numbers are stored in order.
\<close>

lemma upincnt_match:
  assumes "g_regex_match_full upincnt_regex response = Some mi"
    and "mm_get_uint_from_match_info mi 1 = Some p1"
    and "mm_get_uint_from_match_info mi 2 = Some p2"
    and "mm_get_uint_from_match_info mi 3 = Some p3"
    and "mm_get_uint_from_match_info mi 4 = Some p4"
  shows "mm_ublox_parse_upincnt_response response =
           \<lparr>ret = True, err = None,
            written = \<lparr>out_pin_attempts = Some p1, out_pin2_attempts = Some p2,
                       out_puk_attempts = Some p3, out_puk2_attempts = Some p4\<rparr>\<rparr>"
  using assms by (simp add: mm_ublox_parse_upincnt_response_def upincnt_locals_def)

text \<open>
  A reply in which the pattern does not match is accepted as well: \<open>success\<close> is never
  \<open>FALSE\<close>, so the branch that sets \<open>MM_CORE_ERROR_FAILED\<close> is not taken and four zeros are
  stored.
\<close>

lemma upincnt_no_match:
  assumes "g_regex_match_full upincnt_regex response = None"
  shows "mm_ublox_parse_upincnt_response response =
           \<lparr>ret = True, err = None,
            written = \<lparr>out_pin_attempts = Some 0, out_pin2_attempts = Some 0,
                       out_puk_attempts = Some 0, out_puk2_attempts = Some 0\<rparr>\<rparr>"
  using assms by (simp add: mm_ublox_parse_upincnt_response_def upincnt_locals_def)

text \<open>
  Claim C1: a reply with a line \<open>+UPINCNT: p1,p2,p3,p4\<close> makes the parser return \<open>TRUE\<close> and
  store the four numbers; a reply without such a line makes it return \<open>FALSE\<close> with
  \<open>MM_CORE_ERROR_FAILED\<close> and store nothing. On the reply \<open>ERROR\<close>, which has no such line, the
  parser returns \<open>TRUE\<close>, sets no error and stores 0 in all four locations.
\<close>

theorem upincnt_unmatched_response_accepted:
  "g_regex_match_full upincnt_regex ''ERROR'' = None \<and>
   mm_ublox_parse_upincnt_response ''ERROR'' =
     \<lparr>ret = True, err = None,
      written = \<lparr>out_pin_attempts = Some 0, out_pin2_attempts = Some 0,
                 out_puk_attempts = Some 0, out_puk2_attempts = Some 0\<rparr>\<rparr>"
  by (simp add: mm_ublox_parse_upincnt_response_def upincnt_locals_def upincnt_regex_def)

section \<open>Properties of the CFUN? parser\<close>

lemma cfun_match:
  assumes "g_regex_match_full cfun_regex response = Some mi"
    and "mm_get_uint_from_match_info mi 1 = Some v"
  shows "mm_ublox_parse_cfun_response response =
           (if v = 1 then \<lparr>ret = True, err = None, written = Some MM_MODEM_POWER_STATE_ON\<rparr>
            else if v = 0 \<or> v = 4 \<or> v = 19
            then \<lparr>ret = True, err = None, written = Some MM_MODEM_POWER_STATE_LOW\<rparr>
            else \<lparr>ret = False, err = None, written = None\<rparr>)"
  using assms by (simp add: mm_ublox_parse_cfun_response_def cfun_locals_def)

lemma cfun_no_match:
  assumes "g_regex_match_full cfun_regex response = None"
  shows "mm_ublox_parse_cfun_response response = \<lparr>ret = False, err = None, written = None\<rparr>"
  using assms by (simp add: mm_ublox_parse_cfun_response_def cfun_locals_def)

text \<open>
  Claim C9: a reply \<open>+CFUN: v\<close> gives \<open>TRUE\<close> with power state ON for \<open>v = 1\<close> and LOW for
  \<open>v\<close> in 0, 4, 19; any other value, and any reply that does not match, gives \<open>FALSE\<close> with a
  \<open>MM_CORE_ERROR_FAILED\<close> error. On the reply \<open>+CFUN: 2\<close> the parser returns \<open>FALSE\<close> but leaves
  the caller's error unset.
\<close>

theorem cfun_unknown_value_sets_no_error:
  "g_regex_match_full cfun_regex ''+CFUN: 2'' = Some [Some ''2''] \<and>
   mm_get_uint_from_match_info [Some ''2''] 1 = Some 2 \<and>
   mm_ublox_parse_cfun_response ''+CFUN: 2'' = \<lparr>ret = False, err = None, written = None\<rparr>"
  by (simp add: mm_ublox_parse_cfun_response_def cfun_locals_def cfun_regex_def match_defs)

section \<open>Properties of the mode selection for ANY\<close>

lemma mode_any_loop_all_none:
  "\<forall>c \<in> set cs. preferred c = MM_MODEM_MODE_NONE \<Longrightarrow> mode_any_loop cs st = st"
  by (induction cs arbitrary: st) (auto simp: split_paired_all)

lemma urat_selected_loop_no_preferred:
  "\<forall>c \<in> set (urat_selected_loop selected None). preferred c = MM_MODEM_MODE_NONE"
  by (induction selected) auto

text \<open>
  Whatever the selected values are, a reply without a group of preferred values builds an
  array on which the assertion fails.
\<close>

lemma mode_any_no_preferred_list:
  "mm_ublox_get_modem_mode_any (urat_selected_loop selected None) = None"
  using mode_any_loop_all_none [OF urat_selected_loop_no_preferred]
  by (simp add: mm_ublox_get_modem_mode_any_def)

text \<open>
  Claim C3: on every array returned by \<open>mm_ublox_parse_urat_test_response\<close> the assertion of
  \<open>mm_ublox_get_modem_mode_any\<close> holds. The reply \<open>+URAT: (0)\<close> of a 2G-only device parses to
  the single combination (2G, none); the loop skips it, \<open>any\<close> stays \<open>MM_MODEM_MODE_NONE\<close> and
  the assertion fails.
\<close>

theorem urat_test_response_fails_mode_any_assertion:
  "mm_ublox_parse_urat_test_response ''+URAT: (0)'' =
     Inr [\<lparr>allowed = MM_MODEM_MODE_2G, preferred = MM_MODEM_MODE_NONE\<rparr>] \<and>
   mm_ublox_get_modem_mode_any
     [\<lparr>allowed = MM_MODEM_MODE_2G, preferred = MM_MODEM_MODE_NONE\<rparr>] = None"
  by (simp add: urat_test_defs match_defs mode_defs bits_simps mm_ublox_get_modem_mode_any_def)

section \<open>Properties of the MBIM modem steps\<close>

text \<open>
  Claim C8, as stated: \<open>enabling_started_finish\<close> returns \<open>TRUE\<close> exactly when the parent's
  \<open>enabling_started_finish\<close> succeeded and propagates the parent's error otherwise. With a
  parent that fails, the step still finishes with \<open>TRUE\<close> and without an error.
\<close>

theorem enabling_started_parent_failure_counterexample:
  "parent_enabling_finish
     \<lparr>port_mbim = Some True, port_open_finish = None,
      parent_initialization_finish = (NULL, None),
      parent_enabling_finish = Some (GError MM_CORE_ERROR_FAILED ''no primary AT port'')\<rparr>
     = Some (GError MM_CORE_ERROR_FAILED ''no primary AT port'') \<and>
   enabling_started_finish (snd (enabling_started
     \<lparr>port_mbim = Some True, port_open_finish = None,
      parent_initialization_finish = (NULL, None),
      parent_enabling_finish = Some (GError MM_CORE_ERROR_FAILED ''no primary AT port'')\<rparr>))
     = (True, None)"
  by (simp add: enabling_started_def parent_enabling_started_ready_def enabling_started_finish_def
      g_simple_async_result_propagate_error_def g_simple_async_result_new_def)

text \<open>
  Claim C8, amended: \<open>enabling_started\<close> starts the parent's \<open>enabling_started\<close> and nothing
  else, and for every outcome of the parent \<open>enabling_started_finish\<close> returns \<open>TRUE\<close> and sets
  no error: a failure of the parent is not fatal and its error is dropped.
\<close>

theorem enabling_started_always_succeeds:
  "fst (enabling_started env) = [ParentEnablingStarted] \<and>
   enabling_started_finish (snd (enabling_started env)) = (True, None)"
  by (simp add: enabling_started_def parent_enabling_started_ready_def enabling_started_finish_def
      g_simple_async_result_propagate_error_def g_simple_async_result_new_def
      split: option.split)

text \<open>
  Claim C7: \<open>initialization_started\<close> first gets the MBIM port. Without a port it completes
  with \<open>MM_CORE_ERROR_FAILED\<close>, "MBIM port went missing". A closed port is opened, and a failed
  open completes the step with the error of the open. With the port open, at once or after
  the open, the parent's \<open>initialization_started\<close> runs; whether or not the parent fails, the
  step completes without an error and hands on the pointer the parent returned.
\<close>

theorem initialization_started_outcomes:
  "(port_mbim env = None \<longrightarrow>
      fst (initialization_started env) = [] \<and>
      initialization_started_finish (snd (initialization_started env)) =
        (NULL, Some (GError MM_CORE_ERROR_FAILED ''Cannot initialize: MBIM port went missing''))) \<and>
   (port_mbim env = Some False \<and> port_open_finish env = Some e \<longrightarrow>
      fst (initialization_started env) = [MbimPortOpen] \<and>
      initialization_started_finish (snd (initialization_started env)) = (NULL, Some e)) \<and>
   (port_mbim env = Some False \<and> port_open_finish env = None \<longrightarrow>
      fst (initialization_started env) = [MbimPortOpen, ParentInitializationStarted] \<and>
      initialization_started_finish (snd (initialization_started env)) =
        (fst (parent_initialization_finish env), None)) \<and>
   (port_mbim env = Some True \<longrightarrow>
      fst (initialization_started env) = [ParentInitializationStarted] \<and>
      initialization_started_finish (snd (initialization_started env)) =
        (fst (parent_initialization_finish env), None))"
  by (simp add: initialization_started_def mbim_port_open_ready_def
      parent_initialization_started_def parent_initialization_started_ready_def
      initialization_started_finish_def g_simple_async_result_propagate_error_def
      g_simple_async_result_new_def split: prod.split)

text \<open>
  The four cases at concrete environments: no port; a closed port whose open fails; a closed
  port whose open succeeds under a failing parent; an open port under a failing parent.
\<close>

theorem initialization_started_outcomes_witness:
  "initialization_started_finish (snd (initialization_started
     \<lparr>port_mbim = None, port_open_finish = None,
      parent_initialization_finish = (Pointer 1, None), parent_enabling_finish = None\<rparr>))
     = (NULL, Some (GError MM_CORE_ERROR_FAILED ''Cannot initialize: MBIM port went missing'')) \<and>
   initialization_started_finish (snd (initialization_started
     \<lparr>port_mbim = Some False,
      port_open_finish = Some (GError MM_CORE_ERROR_UNSUPPORTED ''open failed''),
      parent_initialization_finish = (Pointer 1, None), parent_enabling_finish = None\<rparr>))
     = (NULL, Some (GError MM_CORE_ERROR_UNSUPPORTED ''open failed'')) \<and>
   initialization_started_finish (snd (initialization_started
     \<lparr>port_mbim = Some False, port_open_finish = None,
      parent_initialization_finish =
        (Pointer 1, Some (GError MM_CORE_ERROR_FAILED ''no primary AT port'')),
      parent_enabling_finish = None\<rparr>))
     = (Pointer 1, None) \<and>
   fst (initialization_started
     \<lparr>port_mbim = Some True, port_open_finish = None,
      parent_initialization_finish =
        (NULL, Some (GError MM_CORE_ERROR_FAILED ''no primary AT port'')),
      parent_enabling_finish = None\<rparr>)
     = [ParentInitializationStarted]"
  using
    initialization_started_outcomes
      [of "\<lparr>port_mbim = None, port_open_finish = None,
            parent_initialization_finish = (Pointer 1, None), parent_enabling_finish = None\<rparr>"]
    initialization_started_outcomes
      [of "\<lparr>port_mbim = Some False,
            port_open_finish = Some (GError MM_CORE_ERROR_UNSUPPORTED ''open failed''),
            parent_initialization_finish = (Pointer 1, None), parent_enabling_finish = None\<rparr>"
          "GError MM_CORE_ERROR_UNSUPPORTED ''open failed''"]
    initialization_started_outcomes
      [of "\<lparr>port_mbim = Some False, port_open_finish = None,
            parent_initialization_finish =
              (Pointer 1, Some (GError MM_CORE_ERROR_FAILED ''no primary AT port'')),
            parent_enabling_finish = None\<rparr>"]
    initialization_started_outcomes
      [of "\<lparr>port_mbim = Some True, port_open_finish = None,
            parent_initialization_finish =
              (NULL, Some (GError MM_CORE_ERROR_FAILED ''no primary AT port'')),
            parent_enabling_finish = None\<rparr>"]
  by simp

section \<open>Properties of the URAT? parser and of the URAT=X builder\<close>

lemma less_7_cases:
  "(n::nat) < 7 \<Longrightarrow> n = 0 \<or> n = 1 \<or> n = 2 \<or> n = 3 \<or> n = 4 \<or> n = 5 \<or> n = 6"
  by arith

lemma ublox_combinations_nonzero:
  "v < 7 \<Longrightarrow> ublox_combinations ! v \<noteq> MM_MODEM_MODE_NONE"
  by (drule less_7_cases) (auto simp: mode_defs)

lemma single_mode_subset:
  assumes "pv < 7" and "av < 7" and "mm_count_bits_set (ublox_combinations ! pv) = 1"
  shows "(ublox_combinations ! av AND ublox_combinations ! pv = 0) =
         (ublox_combinations ! pv AND ublox_combinations ! av \<noteq> ublox_combinations ! pv)"
  using assms(3) less_7_cases [OF assms(1)] less_7_cases [OF assms(2)]
  by (elim disjE) (simp_all add: mode_defs bits_simps)

text \<open>
  Claim C4, as stated: for a reply matching \<open>+URAT: a,p\<close> the parser returns \<open>TRUE\<close> only when
  \<open>p\<close> is in 0..6. The reply \<open>+URAT: 3,4294967296\<close> matches, its second number is present
  and lies outside 0..6, but it does not fit a \<open>guint\<close>: \<open>mm_get_uint_from_match_info\<close> does
  not read it, the parser takes the preferred item for absent and returns \<open>TRUE\<close> with 4G
  allowed and nothing preferred.
\<close>

theorem urat_read_unreadable_preferred_counterexample:
  "g_regex_match_full urat_regex ''+URAT: 3,4294967296'' =
     Some [Some ''3'', Some ''4294967296''] \<and>
   mm_get_uint_from_match_info [Some ''3'', Some ''4294967296''] 2 = None \<and>
   mm_ublox_parse_urat_read_response ''+URAT: 3,4294967296'' =
     \<lparr>ret = True, err = None,
      written = \<lparr>out_allowed = Some MM_MODEM_MODE_4G,
                 out_preferred = Some MM_MODEM_MODE_NONE\<rparr>\<rparr>"
  by (simp add: mm_ublox_parse_urat_read_response_def urat_read_locals_def
      urat_read_preferred_def urat_regex_def match_defs mode_defs)

text \<open>
  Claim C4, amended: for a reply matching \<open>+URAT: a\<close> or \<open>+URAT: a,p\<close>, with \<open>a\<close> and \<open>p\<close> the
  numbers that \<open>mm_get_uint_from_match_info\<close> reads from the two groups of the match, the
  parser returns \<open>TRUE\<close> exactly when \<open>a\<close> is read and lies in 0..6 and, when \<open>p\<close> is read,
  \<open>p\<close> lies in 0..6, \<open>ublox_combinations[p]\<close> is a single mode and that mode is a subset of
  \<open>ublox_combinations[a]\<close>; in every other matched case it returns \<open>FALSE\<close> with a
  \<open>MM_CORE_ERROR_FAILED\<close> error and stores nothing; on success the allowed output is
  \<open>ublox_combinations[a]\<close> and the preferred output is \<open>ublox_combinations[p]\<close>, or
  \<open>MM_MODEM_MODE_NONE\<close> when no \<open>p\<close> is read. A second number that is missing or that the
  helper cannot read counts as an absent preferred item.
\<close>

theorem urat_read_response_matched:
  assumes "g_regex_match_full urat_regex response = Some mi"
  shows
   "(ret (mm_ublox_parse_urat_read_response response) \<longleftrightarrow>
       (\<exists>a. mm_get_uint_from_match_info mi 1 = Some a \<and> a \<le> 6 \<and>
            (\<forall>p. mm_get_uint_from_match_info mi 2 = Some p \<longrightarrow>
                 p \<le> 6 \<and> mm_count_bits_set (ublox_combinations ! p) = 1 \<and>
                 ublox_combinations ! p AND ublox_combinations ! a = ublox_combinations ! p))) \<and>
    (\<not> ret (mm_ublox_parse_urat_read_response response) \<longrightarrow>
       (\<exists>msg. err (mm_ublox_parse_urat_read_response response) =
                 Some (GError MM_CORE_ERROR_FAILED msg)) \<and>
       written (mm_ublox_parse_urat_read_response response) =
         \<lparr>out_allowed = None, out_preferred = None\<rparr>) \<and>
    (ret (mm_ublox_parse_urat_read_response response) \<longrightarrow>
       err (mm_ublox_parse_urat_read_response response) = None \<and>
       (\<exists>a. mm_get_uint_from_match_info mi 1 = Some a \<and>
            out_allowed (written (mm_ublox_parse_urat_read_response response)) =
              Some (ublox_combinations ! a)) \<and>
       out_preferred (written (mm_ublox_parse_urat_read_response response)) =
         Some (case mm_get_uint_from_match_info mi 2 of
                 None \<Rightarrow> MM_MODEM_MODE_NONE
               | Some p \<Rightarrow> ublox_combinations ! p))"
proof (cases "mm_get_uint_from_match_info mi 1")
  case None
  then show ?thesis
    using assms by (simp add: mm_ublox_parse_urat_read_response_def urat_read_locals_def)
next
  case a: (Some a)
  show ?thesis
  proof (cases "a < 7")
    case False
    then show ?thesis
      using assms a
      by (simp add: mm_ublox_parse_urat_read_response_def urat_read_locals_def
          G_N_ELEMENTS_ublox_combinations_def ublox_combinations_def)
  next
    case a7: True
    have n: "G_N_ELEMENTS_ublox_combinations = 7"
      by (simp add: G_N_ELEMENTS_ublox_combinations_def ublox_combinations_def)
    show ?thesis
    proof (cases "mm_get_uint_from_match_info mi 2")
      case None
      then show ?thesis
        using assms a a7 ublox_combinations_nonzero [OF a7]
        by (simp add: mm_ublox_parse_urat_read_response_def urat_read_locals_def
            urat_read_preferred_def n)
    next
      case p: (Some p)
      show ?thesis
      proof (cases "p < 7")
        case False
        then show ?thesis
          using assms a a7 p
          by (simp add: mm_ublox_parse_urat_read_response_def urat_read_locals_def
              urat_read_preferred_def n)
      next
        case p7: True
        show ?thesis
        proof (cases "mm_count_bits_set (ublox_combinations ! p) = 1")
          case False
          then show ?thesis
            using assms a a7 p p7
            by (simp add: mm_ublox_parse_urat_read_response_def urat_read_locals_def
                urat_read_preferred_def n Let_def)
        next
          case True
          then show ?thesis
            using assms a a7 p p7 single_mode_subset [OF p7 a7 True]
              ublox_combinations_nonzero [OF a7]
            by (simp add: mm_ublox_parse_urat_read_response_def urat_read_locals_def
                urat_read_preferred_def n Let_def)
        qed
      qed
    qed
  qed
qed

text \<open>The reply of the source's comment, \<open>+URAT: 1,2\<close>: 2G and 3G allowed, 3G preferred.\<close>

theorem urat_read_response_matched_witness:
  "g_regex_match_full urat_regex ''+URAT: 1,2'' = Some [Some ''1'', Some ''2''] \<and>
   ret (mm_ublox_parse_urat_read_response ''+URAT: 1,2'') \<and>
   err (mm_ublox_parse_urat_read_response ''+URAT: 1,2'') = None \<and>
   out_allowed (written (mm_ublox_parse_urat_read_response ''+URAT: 1,2'')) =
     Some (MM_MODEM_MODE_2G OR MM_MODEM_MODE_3G) \<and>
   out_preferred (written (mm_ublox_parse_urat_read_response ''+URAT: 1,2'')) =
     Some MM_MODEM_MODE_3G"
proof -
  have h: "g_regex_match_full urat_regex ''+URAT: 1,2'' = Some [Some ''1'', Some ''2'']"
    by (simp add: urat_regex_def match_defs)
  have a: "mm_get_uint_from_match_info [Some ''1'', Some ''2''] 1 = Some 1"
    by (simp add: match_defs)
  have p: "mm_get_uint_from_match_info [Some ''1'', Some ''2''] 2 = Some 2"
    by (simp add: match_defs)
  have c: "mm_count_bits_set (ublox_combinations ! 2) = 1"
    "ublox_combinations ! 2 AND ublox_combinations ! 1 = ublox_combinations ! 2"
    "ublox_combinations ! 1 = MM_MODEM_MODE_2G OR MM_MODEM_MODE_3G"
    "ublox_combinations ! 2 = MM_MODEM_MODE_3G"
    by (simp_all add: mode_defs bits_simps)
  show ?thesis
    using urat_read_response_matched [OF h] h a p c by simp
qed

lemmas urat_read_defs =
  mm_ublox_parse_urat_read_response_def urat_read_locals_def urat_read_preferred_def
  urat_regex_def

lemma rat_value_from_index:
  "i < 7 \<Longrightarrow> rat_value_from 0 ublox_combinations (ublox_combinations ! i) = Some i"
  by (drule less_7_cases) (auto simp: mode_defs)

lemma ublox_combinations_index:
  assumes "m \<in> set ublox_combinations" shows "\<exists>i<7. ublox_combinations ! i = m"
proof -
  have "length ublox_combinations = 7" by (simp add: ublox_combinations_def)
  then show ?thesis using assms by (metis in_set_conv_nth)
qed

lemma printf_u_digit: "n < 10 \<Longrightarrow> printf_u n = [digit_char n]"
  by (simp add: printf_u.simps)

lemma urat_read_allowed_only:
  "i < 7 \<Longrightarrow>
   mm_ublox_parse_urat_read_response (''+URAT: '' @ printf_u i) =
     \<lparr>ret = True, err = None,
      written = \<lparr>out_allowed = Some (ublox_combinations ! i),
                 out_preferred = Some MM_MODEM_MODE_NONE\<rparr>\<rparr>"
  by (drule less_7_cases, elim disjE)
     (simp_all add: urat_read_defs match_defs mode_defs bits_simps printf_u_digit digit_char_def)


lemma single_mode_index:
  "j < 7 \<Longrightarrow> mm_count_bits_set (ublox_combinations ! j) = 1 \<Longrightarrow> j = 0 \<or> j = 2 \<or> j = 3"
  by (drule less_7_cases, elim disjE) (simp_all add: mode_defs bits_simps)

lemma urat_read_allowed_preferred:
  assumes "i < 7" and "j < 7"
    and "mm_count_bits_set (ublox_combinations ! j) = 1"
    and "ublox_combinations ! j AND ublox_combinations ! i = ublox_combinations ! j"
  shows
   "mm_ublox_parse_urat_read_response (''+URAT: '' @ printf_u i @ '','' @ printf_u j) =
     \<lparr>ret = True, err = None,
      written = \<lparr>out_allowed = Some (ublox_combinations ! i),
                 out_preferred = Some (ublox_combinations ! j)\<rparr>\<rparr>"
  using assms(4) less_7_cases [OF assms(1)] single_mode_index [OF assms(2,3)]
  by (elim disjE)
     (simp_all add: urat_read_defs match_defs mode_defs bits_simps printf_u_digit digit_char_def)


text \<open>
  Claim C5: for every mask \<open>allowed\<close> of \<open>ublox_combinations\<close> and every \<open>preferred\<close> that is
  \<open>MM_MODEM_MODE_NONE\<close> or a single-mode mask of \<open>ublox_combinations\<close> contained in \<open>allowed\<close>,
  the command builder succeeds with \<open>+URAT=i\<close> or \<open>+URAT=i,j\<close>, where
  \<open>ublox_combinations[i] = allowed\<close> and \<open>ublox_combinations[j] = preferred\<close>, and the read
  parser recovers exactly the two masks from the reply \<open>+URAT: i\<close> or \<open>+URAT: i,j\<close>.
\<close>

theorem urat_build_parse_roundtrip:
  assumes "allowed_mask \<in> set ublox_combinations"
    and "preferred_mask = MM_MODEM_MODE_NONE \<or>
         (preferred_mask \<in> set ublox_combinations \<and>
          mm_count_bits_set preferred_mask = 1 \<and>
          preferred_mask AND allowed_mask = preferred_mask)"
  shows
   "\<exists>i j. i < 7 \<and> ublox_combinations ! i = allowed_mask \<and>
      (if preferred_mask = MM_MODEM_MODE_NONE
       then mm_ublox_build_urat_set_command allowed_mask preferred_mask =
              Inr (''+URAT='' @ printf_u i) \<and>
            mm_ublox_parse_urat_read_response (''+URAT: '' @ printf_u i) =
              \<lparr>ret = True, err = None,
               written = \<lparr>out_allowed = Some allowed_mask,
                          out_preferred = Some preferred_mask\<rparr>\<rparr>
       else j < 7 \<and> ublox_combinations ! j = preferred_mask \<and>
            mm_ublox_build_urat_set_command allowed_mask preferred_mask =
              Inr (''+URAT='' @ printf_u i @ '','' @ printf_u j) \<and>
            mm_ublox_parse_urat_read_response (''+URAT: '' @ printf_u i @ '','' @ printf_u j) =
              \<lparr>ret = True, err = None,
               written = \<lparr>out_allowed = Some allowed_mask,
                          out_preferred = Some preferred_mask\<rparr>\<rparr>)"
proof -
  obtain i where i: "i < 7" "ublox_combinations ! i = allowed_mask"
    using ublox_combinations_index [OF assms(1)] by blast
  have bi: "append_rat_value s allowed_mask = Inr (s @ printf_u i)" for s
    using rat_value_from_index [OF i(1)] i(2) by (simp add: append_rat_value_def)
  show ?thesis
  proof (cases "preferred_mask = MM_MODEM_MODE_NONE")
    case True
    have "mm_ublox_build_urat_set_command allowed_mask preferred_mask =
            Inr (''+URAT='' @ printf_u i)"
      using True bi by (simp add: mm_ublox_build_urat_set_command_def)
    moreover have "mm_ublox_parse_urat_read_response (''+URAT: '' @ printf_u i) =
            \<lparr>ret = True, err = None,
             written = \<lparr>out_allowed = Some allowed_mask, out_preferred = Some preferred_mask\<rparr>\<rparr>"
      using urat_read_allowed_only [OF i(1)] i(2) True by simp
    ultimately show ?thesis
      using True i by (intro exI [of _ i] exI [of _ 0]) simp
  next
    case False
    then have p: "preferred_mask \<in> set ublox_combinations"
      "mm_count_bits_set preferred_mask = 1" "preferred_mask AND allowed_mask = preferred_mask"
      using assms(2) by auto
    obtain j where j: "j < 7" "ublox_combinations ! j = preferred_mask"
      using ublox_combinations_index [OF p(1)] by blast
    have bj: "append_rat_value s preferred_mask = Inr (s @ printf_u j)" for s
      using rat_value_from_index [OF j(1)] j(2) by (simp add: append_rat_value_def)
    have "mm_ublox_build_urat_set_command allowed_mask preferred_mask =
            Inr (''+URAT='' @ printf_u i @ '','' @ printf_u j)"
      using False bi bj by (simp add: mm_ublox_build_urat_set_command_def)
    moreover have "mm_ublox_parse_urat_read_response (''+URAT: '' @ printf_u i @ '','' @ printf_u j) =
            \<lparr>ret = True, err = None,
             written = \<lparr>out_allowed = Some allowed_mask, out_preferred = Some preferred_mask\<rparr>\<rparr>"
      using urat_read_allowed_preferred [OF i(1) j(1)] p i(2) j(2) by simp
    ultimately show ?thesis
      using False i j by (intro exI [of _ i] exI [of _ j]) simp
  qed
qed


text \<open>2G and 3G allowed with 3G preferred: the command is \<open>+URAT=1,2\<close>.\<close>

theorem urat_build_parse_roundtrip_witness:
  "(\<exists>i j. mm_ublox_build_urat_set_command (MM_MODEM_MODE_2G OR MM_MODEM_MODE_3G) MM_MODEM_MODE_3G =
            Inr (''+URAT='' @ printf_u i @ '','' @ printf_u j) \<and>
          mm_ublox_parse_urat_read_response (''+URAT: '' @ printf_u i @ '','' @ printf_u j) =
            \<lparr>ret = True, err = None,
             written = \<lparr>out_allowed = Some (MM_MODEM_MODE_2G OR MM_MODEM_MODE_3G),
                        out_preferred = Some MM_MODEM_MODE_3G\<rparr>\<rparr>) \<and>
   mm_ublox_build_urat_set_command (MM_MODEM_MODE_2G OR MM_MODEM_MODE_3G) MM_MODEM_MODE_3G =
     Inr ''+URAT=1,2''"
proof -
  have a: "MM_MODEM_MODE_2G OR MM_MODEM_MODE_3G \<in> set ublox_combinations"
    by (simp add: ublox_combinations_def)
  have p: "MM_MODEM_MODE_3G = MM_MODEM_MODE_NONE \<or>
         (MM_MODEM_MODE_3G \<in> set ublox_combinations \<and>
          mm_count_bits_set MM_MODEM_MODE_3G = 1 \<and>
          MM_MODEM_MODE_3G AND (MM_MODEM_MODE_2G OR MM_MODEM_MODE_3G) = MM_MODEM_MODE_3G)"
    by (simp add: mode_defs bits_simps)
  have ne: "MM_MODEM_MODE_3G \<noteq> MM_MODEM_MODE_NONE"
    by (simp add: mode_defs)
  have "\<exists>i j. mm_ublox_build_urat_set_command (MM_MODEM_MODE_2G OR MM_MODEM_MODE_3G) MM_MODEM_MODE_3G =
            Inr (''+URAT='' @ printf_u i @ '','' @ printf_u j) \<and>
          mm_ublox_parse_urat_read_response (''+URAT: '' @ printf_u i @ '','' @ printf_u j) =
            \<lparr>ret = True, err = None,
             written = \<lparr>out_allowed = Some (MM_MODEM_MODE_2G OR MM_MODEM_MODE_3G),
                        out_preferred = Some MM_MODEM_MODE_3G\<rparr>\<rparr>"
    using urat_build_parse_roundtrip [OF a p] ne by (simp only: if_False) blast
  moreover have "mm_ublox_build_urat_set_command (MM_MODEM_MODE_2G OR MM_MODEM_MODE_3G)
                   MM_MODEM_MODE_3G = Inr ''+URAT=1,2''"
    by (simp add: mm_ublox_build_urat_set_command_def append_rat_value_def mode_defs
        printf_u_digit digit_char_def)
  ultimately show ?thesis by blast
qed

section \<open>Properties of the URAT=? parser\<close>

lemma ublox_combinations_nth_mem:
  "v < G_N_ELEMENTS_ublox_combinations \<Longrightarrow> ublox_combinations ! v \<in> set ublox_combinations"
  by (simp add: G_N_ELEMENTS_ublox_combinations_def)

lemma n_elements_7: "G_N_ELEMENTS_ublox_combinations = 7"
  by (simp add: G_N_ELEMENTS_ublox_combinations_def ublox_combinations_def)

lemma single_mode_is_flag:
  assumes "pv < 7" and "mm_count_bits_set (ublox_combinations ! pv) = 1"
  shows "ublox_combinations ! pv \<in> {MM_MODEM_MODE_2G, MM_MODEM_MODE_3G, MM_MODEM_MODE_4G}"
  using single_mode_index [OF assms] by (auto simp: mode_defs)

lemma urat_preferred_loop_elems:
  assumes "c \<in> set (urat_preferred_loop (ublox_combinations ! v) ps)" and "v < 7"
  shows "allowed c = ublox_combinations ! v \<and>
         preferred c \<in> {MM_MODEM_MODE_2G, MM_MODEM_MODE_3G, MM_MODEM_MODE_4G} \<and>
         mm_count_bits_set (preferred c) = 1 \<and>
         preferred c AND allowed c = preferred c"
  using assms(1)
proof (induction ps)
  case Nil
  then show ?case by simp
next
  case (Cons p ps)
  show ?case
  proof (cases "p < 7 \<and> mm_count_bits_set (ublox_combinations ! p) = 1 \<and>
                ublox_combinations ! v AND ublox_combinations ! p \<noteq> 0")
    case True
    then have "ublox_combinations ! p AND ublox_combinations ! v = ublox_combinations ! p"
      using single_mode_subset [of p v] assms(2) by simp
    then show ?thesis
      using Cons True single_mode_is_flag [of p] by (auto simp: n_elements_7)
  next
    case False
    then show ?thesis
      using Cons by (auto simp: n_elements_7 split: if_splits)
  qed
qed

lemma urat_selected_loop_elems:
  assumes "c \<in> set (urat_selected_loop selected preferred_list)"
  shows "allowed c \<in> set ublox_combinations \<and>
         (preferred c = MM_MODEM_MODE_NONE \<or>
          preferred c \<in> {MM_MODEM_MODE_2G, MM_MODEM_MODE_3G, MM_MODEM_MODE_4G} \<and>
          mm_count_bits_set (preferred c) = 1 \<and>
          preferred c AND allowed c = preferred c)"
  using assms
proof (induction selected)
  case Nil
  then show ?case by simp
next
  case (Cons v rest)
  show ?case
  proof (cases "v < 7")
    case False
    then show ?thesis using Cons by (simp add: n_elements_7)
  next
    case True
    then have m: "ublox_combinations ! v \<in> set ublox_combinations"
      using ublox_combinations_nth_mem [of v] by (simp add: n_elements_7)
    from Cons.prems True
    consider "c = \<lparr>allowed = ublox_combinations ! v, preferred = MM_MODEM_MODE_NONE\<rparr>"
      | ps where "c \<in> set (urat_preferred_loop (ublox_combinations ! v) ps)"
      | "c \<in> set (urat_selected_loop rest preferred_list)"
      by (auto simp: n_elements_7 split: if_splits option.splits)
    then show ?thesis
    proof cases
      case 1
      then show ?thesis using m by simp
    next
      case 2
      then show ?thesis using urat_preferred_loop_elems [OF 2 True] m by auto
    next
      case 3
      then show ?thesis using Cons.IH by simp
    qed
  qed
qed

lemma urat_selected_loop_none:
  assumes "v \<in> set selected" and "v < G_N_ELEMENTS_ublox_combinations"
  shows "\<lparr>allowed = ublox_combinations ! v, preferred = MM_MODEM_MODE_NONE\<rparr>
           \<in> set (urat_selected_loop selected preferred_list)"
  using assms by (induction selected) auto

text \<open>
  Claim C2: an array returned by \<open>mm_ublox_parse_urat_test_response\<close> is not empty; every
  element has one of the seven masks of \<open>ublox_combinations\<close> as its allowed field, and a
  preferred field that is \<open>MM_MODEM_MODE_NONE\<close> or a single-mode mask contained in the allowed
  field; and for every in-range value of the selected group the combination of its mask
  with preferred \<open>MM_MODEM_MODE_NONE\<close> is in the array.
\<close>

theorem urat_test_response_combinations:
  assumes "mm_ublox_parse_urat_test_response response = Inr combinations"
  shows "combinations \<noteq> [] \<and>
         (\<forall>c \<in> set combinations.
            allowed c \<in> set ublox_combinations \<and>
            (preferred c = MM_MODEM_MODE_NONE \<or>
             preferred c \<in> {MM_MODEM_MODE_2G, MM_MODEM_MODE_3G, MM_MODEM_MODE_4G} \<and>
             mm_count_bits_set (preferred c) = 1 \<and>
             preferred c AND allowed c = preferred c)) \<and>
         (\<exists>selected. urat_test_selected response = Inr (Some selected) \<and>
            (\<forall>v \<in> set selected. v < G_N_ELEMENTS_ublox_combinations \<longrightarrow>
               \<lparr>allowed = ublox_combinations ! v, preferred = MM_MODEM_MODE_NONE\<rparr>
                 \<in> set combinations))"
proof -
  from assms obtain selected preferred_list where
    s: "urat_test_selected response = Inr (Some selected)" and
    c: "combinations = urat_selected_loop selected preferred_list" and
    n: "combinations \<noteq> []"
    by (auto simp: mm_ublox_parse_urat_test_response_def Let_def
        split: if_splits sum.splits option.splits)
  show ?thesis
    using s c n urat_selected_loop_elems urat_selected_loop_none by blast
qed


text \<open>The reply of the source's comment, \<open>+URAT: (0-6),(0,2,3)\<close>, gives sixteen combinations.\<close>

theorem urat_test_response_combinations_witness:
  "\<exists>cs. mm_ublox_parse_urat_test_response ''+URAT: (0-6),(0,2,3)'' = Inr cs \<and>
         cs \<noteq> [] \<and> length cs = 16 \<and>
         allowed (cs ! 2) \<in> set ublox_combinations \<and>
         cs ! 2 = \<lparr>allowed = MM_MODEM_MODE_2G OR MM_MODEM_MODE_3G, preferred = MM_MODEM_MODE_2G\<rparr>"
proof -
  let ?cs = "
    [\<lparr>allowed = MM_MODEM_MODE_2G, preferred = MM_MODEM_MODE_NONE\<rparr>,
     \<lparr>allowed = MM_MODEM_MODE_2G OR MM_MODEM_MODE_3G, preferred = MM_MODEM_MODE_NONE\<rparr>,
     \<lparr>allowed = MM_MODEM_MODE_2G OR MM_MODEM_MODE_3G, preferred = MM_MODEM_MODE_2G\<rparr>,
     \<lparr>allowed = MM_MODEM_MODE_2G OR MM_MODEM_MODE_3G, preferred = MM_MODEM_MODE_3G\<rparr>,
     \<lparr>allowed = MM_MODEM_MODE_3G, preferred = MM_MODEM_MODE_NONE\<rparr>,
     \<lparr>allowed = MM_MODEM_MODE_4G, preferred = MM_MODEM_MODE_NONE\<rparr>,
     \<lparr>allowed = MM_MODEM_MODE_2G OR MM_MODEM_MODE_3G OR MM_MODEM_MODE_4G,
      preferred = MM_MODEM_MODE_NONE\<rparr>,
     \<lparr>allowed = MM_MODEM_MODE_2G OR MM_MODEM_MODE_3G OR MM_MODEM_MODE_4G,
      preferred = MM_MODEM_MODE_2G\<rparr>,
     \<lparr>allowed = MM_MODEM_MODE_2G OR MM_MODEM_MODE_3G OR MM_MODEM_MODE_4G,
      preferred = MM_MODEM_MODE_3G\<rparr>,
     \<lparr>allowed = MM_MODEM_MODE_2G OR MM_MODEM_MODE_3G OR MM_MODEM_MODE_4G,
      preferred = MM_MODEM_MODE_4G\<rparr>,
     \<lparr>allowed = MM_MODEM_MODE_2G OR MM_MODEM_MODE_4G, preferred = MM_MODEM_MODE_NONE\<rparr>,
     \<lparr>allowed = MM_MODEM_MODE_2G OR MM_MODEM_MODE_4G, preferred = MM_MODEM_MODE_2G\<rparr>,
     \<lparr>allowed = MM_MODEM_MODE_2G OR MM_MODEM_MODE_4G, preferred = MM_MODEM_MODE_4G\<rparr>,
     \<lparr>allowed = MM_MODEM_MODE_3G OR MM_MODEM_MODE_4G, preferred = MM_MODEM_MODE_NONE\<rparr>,
     \<lparr>allowed = MM_MODEM_MODE_3G OR MM_MODEM_MODE_4G, preferred = MM_MODEM_MODE_3G\<rparr>,
     \<lparr>allowed = MM_MODEM_MODE_3G OR MM_MODEM_MODE_4G, preferred = MM_MODEM_MODE_4G\<rparr>]"
  have h: "mm_ublox_parse_urat_test_response ''+URAT: (0-6),(0,2,3)'' = Inr ?cs"
    by (simp add: urat_test_defs match_defs mode_defs bits_simps)
  have "?cs \<noteq> [] \<and> (\<forall>c \<in> set ?cs. allowed c \<in> set ublox_combinations)"
    using urat_test_response_combinations [OF h] by blast
  then have "?cs \<noteq> [] \<and> allowed (?cs ! 2) \<in> set ublox_combinations"
    by simp
  then show ?thesis
    using h by (intro exI [of _ ?cs]) simp
qed


section \<open>Properties of the per-model filter\<close>

text \<open>
  Claim C6: \<open>mm_ublox_filter_supported_modes\<close> returns its input unchanged without a model or
  when the model's mask is 2G, 3G and 4G; otherwise it keeps the combinations compatible
  with the model's mask and fails with \<open>MM_CORE_ERROR_FAILED\<close> when none is left. The table
  drops 2G for TOBY-L201, TOBY-L220 and MPCI-L201, drops 4G for every model that starts with
  LISA-U or SARA-U, and drops 2G as well for SARA-U270-53S and SARA-U280.
\<close>

theorem filter_supported_modes_by_model:
  "mm_ublox_filter_supported_modes None combinations = Inr combinations \<and>
   (supported_modes_per_model (Some m) =
      MM_MODEM_MODE_2G OR MM_MODEM_MODE_3G OR MM_MODEM_MODE_4G \<longrightarrow>
      mm_ublox_filter_supported_modes (Some m) combinations = Inr combinations) \<and>
   (supported_modes_per_model (Some m) \<noteq>
      MM_MODEM_MODE_2G OR MM_MODEM_MODE_3G OR MM_MODEM_MODE_4G \<longrightarrow>
      mm_ublox_filter_supported_modes (Some m) combinations =
        (if filter (\<lambda>c. allowed c AND NOT (supported_modes_per_model (Some m)) = 0)
              combinations = []
         then Inl (GError MM_CORE_ERROR_FAILED
                     ''No valid mode combinations built after filtering'')
         else Inr (filter (\<lambda>c. allowed c AND NOT (supported_modes_per_model (Some m)) = 0)
                     combinations))) \<and>
   supported_modes_per_model (Some m) =
     (if m \<in> {''TOBY-L201'', ''TOBY-L220'', ''MPCI-L201''}
      then MM_MODEM_MODE_3G OR MM_MODEM_MODE_4G
      else if g_str_has_prefix m ''LISA-U'' \<or> g_str_has_prefix m ''SARA-U''
      then (if m \<in> {''SARA-U270-53S'', ''SARA-U280''}
            then MM_MODEM_MODE_3G
            else MM_MODEM_MODE_2G OR MM_MODEM_MODE_3G)
      else MM_MODEM_MODE_2G OR MM_MODEM_MODE_3G OR MM_MODEM_MODE_4G)"
proof -
  have t: "supported_modes_per_model (Some m) =
     (if m \<in> {''TOBY-L201'', ''TOBY-L220'', ''MPCI-L201''}
      then MM_MODEM_MODE_3G OR MM_MODEM_MODE_4G
      else if g_str_has_prefix m ''LISA-U'' \<or> g_str_has_prefix m ''SARA-U''
      then (if m \<in> {''SARA-U270-53S'', ''SARA-U280''}
            then MM_MODEM_MODE_3G
            else MM_MODEM_MODE_2G OR MM_MODEM_MODE_3G)
      else MM_MODEM_MODE_2G OR MM_MODEM_MODE_3G OR MM_MODEM_MODE_4G)"
    by (simp add: supported_modes_per_model_def Let_def MM_MODEM_MODE_2G_def
        MM_MODEM_MODE_3G_def MM_MODEM_MODE_4G_def)
  have n: "supported_modes_per_model None =
             MM_MODEM_MODE_2G OR MM_MODEM_MODE_3G OR MM_MODEM_MODE_4G"
    by (simp add: supported_modes_per_model_def)
  have f: "mm_ublox_filter_supported_modes None combinations = Inr combinations"
    by (simp add: mm_ublox_filter_supported_modes_def)
  have g: "mm_ublox_filter_supported_modes (Some m) combinations =
      (if supported_modes_per_model (Some m) =
            MM_MODEM_MODE_2G OR MM_MODEM_MODE_3G OR MM_MODEM_MODE_4G
       then Inr combinations
       else if filter (\<lambda>c. allowed c AND NOT (supported_modes_per_model (Some m)) = 0)
              combinations = []
         then Inl (GError MM_CORE_ERROR_FAILED
                     ''No valid mode combinations built after filtering'')
         else Inr (filter (\<lambda>c. allowed c AND NOT (supported_modes_per_model (Some m)) = 0)
                     combinations))"
    by (simp add: mm_ublox_filter_supported_modes_def mm_filter_supported_modes_def n Let_def)
  show ?thesis
    using t f g by simp
qed


text \<open>
  A SARA-U280 (3G only) keeps the 3G combination of two, and is left with nothing when offered
  2G alone; a TOBY-L210 supports everything and its array is returned as it is.
\<close>

theorem filter_supported_modes_by_model_witness:
  "mm_ublox_filter_supported_modes (Some ''SARA-U280'')
     [\<lparr>allowed = MM_MODEM_MODE_2G OR MM_MODEM_MODE_3G, preferred = MM_MODEM_MODE_NONE\<rparr>,
      \<lparr>allowed = MM_MODEM_MODE_3G, preferred = MM_MODEM_MODE_NONE\<rparr>] =
     Inr [\<lparr>allowed = MM_MODEM_MODE_3G, preferred = MM_MODEM_MODE_NONE\<rparr>] \<and>
   mm_ublox_filter_supported_modes (Some ''SARA-U280'')
     [\<lparr>allowed = MM_MODEM_MODE_2G, preferred = MM_MODEM_MODE_NONE\<rparr>] =
     Inl (GError MM_CORE_ERROR_FAILED ''No valid mode combinations built after filtering'') \<and>
   mm_ublox_filter_supported_modes (Some ''TOBY-L210'')
     [\<lparr>allowed = MM_MODEM_MODE_2G, preferred = MM_MODEM_MODE_NONE\<rparr>] =
     Inr [\<lparr>allowed = MM_MODEM_MODE_2G, preferred = MM_MODEM_MODE_NONE\<rparr>]"
  using
    filter_supported_modes_by_model
      [where m = "''SARA-U280''" and combinations =
         "[\<lparr>allowed = MM_MODEM_MODE_2G OR MM_MODEM_MODE_3G, preferred = MM_MODEM_MODE_NONE\<rparr>,
           \<lparr>allowed = MM_MODEM_MODE_3G, preferred = MM_MODEM_MODE_NONE\<rparr>]"]
    filter_supported_modes_by_model
      [where m = "''SARA-U280''" and combinations =
         "[\<lparr>allowed = MM_MODEM_MODE_2G, preferred = MM_MODEM_MODE_NONE\<rparr>]"]
    filter_supported_modes_by_model
      [where m = "''TOBY-L210''" and combinations =
         "[\<lparr>allowed = MM_MODEM_MODE_2G, preferred = MM_MODEM_MODE_NONE\<rparr>]"]
  by (simp add: g_str_has_prefix_def mode_defs)


section \<open>Properties of the UIPADDR=N parser\<close>

lemmas uipaddr_defs =
  mm_ublox_parse_uipaddr_response_def uipaddr_locals_def uipaddr_init_def uipaddr_unset_def

text \<open>
  Claim C10: for every reply and every choice of \<open>NULL\<close> and non-\<open>NULL\<close> out pointers, a
  call of \<open>mm_ublox_parse_uipaddr_response\<close> that returns \<open>FALSE\<close> stores nothing; a call that
  returns \<open>TRUE\<close> stores through exactly the pointers that were given, the cid and the
  interface name being the values parsed from the reply (the name never \<open>NULL\<close>) and each of
  the four addresses being the parsed string or \<open>NULL\<close>.
\<close>

theorem uipaddr_response_outputs:
  "(\<not> ret (mm_ublox_parse_uipaddr_response ptrs response) \<longrightarrow>
      err (mm_ublox_parse_uipaddr_response ptrs response) \<noteq> None \<and>
      written (mm_ublox_parse_uipaddr_response ptrs response) = uipaddr_unset) \<and>
   (ret (mm_ublox_parse_uipaddr_response ptrs response) \<longrightarrow>
      (out_cid (written (mm_ublox_parse_uipaddr_response ptrs response)) \<noteq> None
         \<longleftrightarrow> ptr_cid ptrs) \<and>
      (out_if_name (written (mm_ublox_parse_uipaddr_response ptrs response)) \<noteq> None
         \<longleftrightarrow> ptr_if_name ptrs) \<and>
      (out_ipv4_address (written (mm_ublox_parse_uipaddr_response ptrs response)) \<noteq> None
         \<longleftrightarrow> ptr_ipv4_address ptrs) \<and>
      (out_ipv4_subnet (written (mm_ublox_parse_uipaddr_response ptrs response)) \<noteq> None
         \<longleftrightarrow> ptr_ipv4_subnet ptrs) \<and>
      (out_ipv6_global_address (written (mm_ublox_parse_uipaddr_response ptrs response)) \<noteq> None
         \<longleftrightarrow> ptr_ipv6_global_address ptrs) \<and>
      (out_ipv6_link_local_address (written (mm_ublox_parse_uipaddr_response ptrs response)) \<noteq> None
         \<longleftrightarrow> ptr_ipv6_link_local_address ptrs) \<and>
      (\<exists>mi. g_regex_match_full uipaddr_regex response = Some mi \<and>
         (ptr_cid ptrs \<longrightarrow>
            out_cid (written (mm_ublox_parse_uipaddr_response ptrs response)) =
              mm_get_uint_from_match_info mi 1) \<and>
         (ptr_if_name ptrs \<longrightarrow>
            (\<exists>name. mm_get_string_unquoted_from_match_info mi 2 = Some name \<and>
               out_if_name (written (mm_ublox_parse_uipaddr_response ptrs response)) =
                 Some (Some name))) \<and>
         (ptr_ipv4_address ptrs \<longrightarrow>
            out_ipv4_address (written (mm_ublox_parse_uipaddr_response ptrs response)) =
              Some (mm_get_string_unquoted_from_match_info mi 3)) \<and>
         (ptr_ipv4_subnet ptrs \<longrightarrow>
            out_ipv4_subnet (written (mm_ublox_parse_uipaddr_response ptrs response)) =
              Some (mm_get_string_unquoted_from_match_info mi 4)) \<and>
         (ptr_ipv6_global_address ptrs \<longrightarrow>
            out_ipv6_global_address (written (mm_ublox_parse_uipaddr_response ptrs response)) =
              Some (mm_get_string_unquoted_from_match_info mi 5)) \<and>
         (ptr_ipv6_link_local_address ptrs \<longrightarrow>
            out_ipv6_link_local_address (written (mm_ublox_parse_uipaddr_response ptrs response)) =
              Some (mm_get_string_unquoted_from_match_info mi 6))))"
proof (cases "g_regex_match_full uipaddr_regex response")
  case None
  then show ?thesis by (simp add: uipaddr_defs)
next
  case mi: (Some mi)
  show ?thesis
  proof (cases "if ptr_cid ptrs then mm_get_uint_from_match_info mi 1 else Some 0")
    case None
    then show ?thesis using mi by (simp add: uipaddr_defs)
  next
    case c: (Some c)
    then have c': "ptr_cid ptrs \<longrightarrow> mm_get_uint_from_match_info mi 1 = Some c"
      by (simp split: if_splits)
    show ?thesis
    proof (cases "ptr_if_name ptrs \<and> mm_get_string_unquoted_from_match_info mi 2 = None")
      case True
      then show ?thesis using mi c by (simp add: uipaddr_defs)
    next
      case False
      then have n: "ptr_if_name ptrs \<longrightarrow>
          (\<exists>name. mm_get_string_unquoted_from_match_info mi 2 = Some name)"
        by auto
      show ?thesis
        using mi c c' False n by (auto simp: uipaddr_defs Let_def)
    qed
  qed
qed

text \<open>
  The first reply of the source's comment, with an IPv4 address and no IPv6 address, and a
  reply with an empty interface name, which is refused.
\<close>

theorem uipaddr_response_outputs_witness:
  \<open>ret (mm_ublox_parse_uipaddr_response uipaddr_all_ptrs
          ''+UIPADDR: 1,"ccinet0","5.168.120.13","255.255.255.0","",""'') \<and>
   out_cid (written (mm_ublox_parse_uipaddr_response uipaddr_all_ptrs
          ''+UIPADDR: 1,"ccinet0","5.168.120.13","255.255.255.0","",""'')) = Some 1 \<and>
   out_if_name (written (mm_ublox_parse_uipaddr_response uipaddr_all_ptrs
          ''+UIPADDR: 1,"ccinet0","5.168.120.13","255.255.255.0","",""'')) =
     Some (Some ''ccinet0'') \<and>
   out_ipv4_address (written (mm_ublox_parse_uipaddr_response uipaddr_all_ptrs
          ''+UIPADDR: 1,"ccinet0","5.168.120.13","255.255.255.0","",""'')) =
     Some (Some ''5.168.120.13'') \<and>
   out_ipv6_global_address (written (mm_ublox_parse_uipaddr_response uipaddr_all_ptrs
          ''+UIPADDR: 1,"ccinet0","5.168.120.13","255.255.255.0","",""'')) = Some None \<and>
   \<not> ret (mm_ublox_parse_uipaddr_response uipaddr_all_ptrs ''+UIPADDR: 1,"",,,,'') \<and>
   written (mm_ublox_parse_uipaddr_response uipaddr_all_ptrs ''+UIPADDR: 1,"",,,,'') =
     uipaddr_unset\<close>
proof -
  let ?ok = \<open>''+UIPADDR: 1,"ccinet0","5.168.120.13","255.255.255.0","",""''\<close>
  let ?mi = \<open>[Some ''1'', Some ''"ccinet0"'', Some ''"5.168.120.13"'',
              Some ''"255.255.255.0"'', Some ''""'', Some ''""'']\<close>
  let ?bad = \<open>''+UIPADDR: 1,"",,,,''\<close>
  have m: "g_regex_match_full uipaddr_regex ?ok = Some ?mi"
    by (simp add: uipaddr_regex_def match_defs)
  have r: "ret (mm_ublox_parse_uipaddr_response uipaddr_all_ptrs ?ok)"
    by (simp add: uipaddr_defs uipaddr_regex_def match_defs uipaddr_all_ptrs_def)
  have g: "mm_get_uint_from_match_info ?mi 1 = Some 1"
    "mm_get_string_unquoted_from_match_info ?mi 2 = Some ''ccinet0''"
    "mm_get_string_unquoted_from_match_info ?mi 3 = Some ''5.168.120.13''"
    "mm_get_string_unquoted_from_match_info ?mi 5 = None"
    by (simp_all add: match_defs)
  have b: "\<not> ret (mm_ublox_parse_uipaddr_response uipaddr_all_ptrs ?bad)"
    by (simp add: uipaddr_defs uipaddr_regex_def match_defs uipaddr_all_ptrs_def)
  have "written (mm_ublox_parse_uipaddr_response uipaddr_all_ptrs ?bad) = uipaddr_unset"
    using uipaddr_response_outputs [of uipaddr_all_ptrs ?bad] b by blast
  moreover have
    "out_cid (written (mm_ublox_parse_uipaddr_response uipaddr_all_ptrs ?ok)) = Some 1 \<and>
     out_if_name (written (mm_ublox_parse_uipaddr_response uipaddr_all_ptrs ?ok)) =
       Some (Some ''ccinet0'') \<and>
     out_ipv4_address (written (mm_ublox_parse_uipaddr_response uipaddr_all_ptrs ?ok)) =
       Some (Some ''5.168.120.13'') \<and>
     out_ipv6_global_address (written (mm_ublox_parse_uipaddr_response uipaddr_all_ptrs ?ok)) =
       Some None"
    using uipaddr_response_outputs [of uipaddr_all_ptrs ?ok] r m g
    by (simp add: uipaddr_all_ptrs_def)
  ultimately show ?thesis
    using r b by blast
qed

end
